theory Spec2Isabelle
  imports Complex_Main "HOL-Library.Multiset" "HOL-Library.Log_Nat"
begin

section \<open>Data model (api-inventory/src/entities/inventory.entitie.ts)\<close>

text \<open>
  A JavaScript \<^verbatim>\<open>number\<close> is an IEEE 754 double. The model takes the real number
  a finite double denotes; \<^verbatim>\<open>NaN\<close> and the infinities have no value in it, and the
  two zeros are one. A \<^verbatim>\<open>Date\<close> is its time value in milliseconds. A string is a
  list of 8-bit characters, one byte each.
\<close>

type_synonym number = real
type_synonym date = nat

subsection \<open>Addition of doubles\<close>

text \<open>
  The sum of two doubles is the exact sum rounded to the nearest double, a tie
  going to the double whose last bit is even. The doubles around \<open>x\<close> are the
  multiples of \<open>quantum x\<close>, which is \<open>2 ^ (e - 52)\<close> for \<open>2 ^ e \<le> \<bar>x\<bar> < 2 ^ (e + 1)\<close>
  and stays \<open>2 ^ - 1074\<close> below \<open>2 ^ - 1022\<close>. A sum beyond the largest double, which
  the machine gives as an infinity, is outside the model.
\<close>

definition pow2 :: "int \<Rightarrow> real" where
  "pow2 k = (if 0 \<le> k then 2 ^ nat k else 1 / 2 ^ nat (- k))"

text \<open>\<open>binade x\<close> is the \<open>e\<close> with \<open>2 ^ e \<le> \<bar>x\<bar> < 2 ^ (e + 1)\<close>, for \<open>x \<noteq> 0\<close>.\<close>

definition binade :: "real \<Rightarrow> int" where
  "binade x =
     (if 1 \<le> \<bar>x\<bar> then bitlen \<lfloor>\<bar>x\<bar>\<rfloor> - 1
      else - bitlen (\<lceil>1 / \<bar>x\<bar>\<rceil> - 1))"

definition quantum :: "real \<Rightarrow> real" where
  "quantum x = pow2 (max (binade x) (- 1022) - 52)"

definition round_half_even :: "real \<Rightarrow> int" where
  "round_half_even r =
     (let f = \<lfloor>r\<rfloor> in
      if r - of_int f < 1 / 2 then f
      else if 1 / 2 < r - of_int f then f + 1
      else if even f then f else f + 1)"

definition round_double :: "real \<Rightarrow> number" where
  "round_double x =
     (if x = 0 then 0 else of_int (round_half_even (x / quantum x)) * quantum x)"

definition double_add :: "number \<Rightarrow> number \<Rightarrow> number" where
  "double_add x y = round_double (x + y)"

subsection \<open>The entities\<close>

text \<open>
  \<^verbatim>\<open>class Variant { name; price; stock }\<close>. The fields carry a prefix, since the
  item below has fields of the same names.
\<close>

record Variant =
  variant_name :: string
  variant_price :: number
  variant_stock :: number

text \<open>\<^verbatim>\<open>class Inventory\<close>: the nine constructor parameters, in order.\<close>

record Inventory =
  barcode :: string
  name :: string
  description :: string
  price :: number
  stock :: number
  supplier :: string
  created_at :: date
  updated_at :: date
  variants :: "Variant list"

text \<open>
  An \<^verbatim>\<open>ObjectId\<close> of the bson library is a sequence of 12 bytes.
\<close>

datatype objectid = ObjectId (id_bytes: "nat list")

text \<open>
  \<^verbatim>\<open>interface InventoryData\<close>: an item together with its \<^verbatim>\<open>_id\<close>. Every document
  read back from a collection has one.
\<close>

record InventoryData = Inventory +
  doc_id :: objectid

section \<open>The document store (the mongodb driver, as the provider uses it)\<close>

text \<open>
  A collection is the list of its documents in insertion order, which is the order
  \<^verbatim>\<open>find().toArray()\<close> returns when nothing is deleted. A database maps a
  collection name to its documents (a collection never written to is empty) and
  carries the counter from which the driver draws the next \<^verbatim>\<open>_id\<close>. Storage
  and transport faults are not modelled: every operation reaches the store.
\<close>

record database =
  collections :: "string \<Rightarrow> InventoryData list"
  oid_counter :: nat

definition generate_oid :: "nat \<Rightarrow> objectid" where
  "generate_oid n = ObjectId (map (\<lambda>i. (n div 256 ^ (11 - i)) mod 256) [0..<12])"

text \<open>The document \<^verbatim>\<open>insertOne\<close> stores: the fields of the item and a fresh \<^verbatim>\<open>_id\<close>.\<close>

definition stored :: "objectid \<Rightarrow> Inventory \<Rightarrow> InventoryData" where
  "stored oid item =
     \<lparr> barcode = barcode item, name = name item, description = description item,
       price = price item, stock = stock item, supplier = supplier item,
       created_at = created_at item, updated_at = updated_at item,
       variants = variants item, doc_id = oid \<rparr>"

text \<open>\<^verbatim>\<open>findOne({ barcode: b })\<close>: the first document whose barcode is \<open>b\<close>.\<close>

definition findOne_barcode :: "InventoryData list \<Rightarrow> string \<Rightarrow> InventoryData option" where
  "findOne_barcode docs b = find (\<lambda>d. barcode d = b) docs"

text \<open>\<^verbatim>\<open>findOne({ _id: oid })\<close>: the first document whose \<^verbatim>\<open>_id\<close> is \<open>oid\<close>.\<close>

definition findOne_id :: "InventoryData list \<Rightarrow> objectid \<Rightarrow> InventoryData option" where
  "findOne_id docs oid = find (\<lambda>d. doc_id d = oid) docs"

text \<open>\<^verbatim>\<open>insertOne(item)\<close>: appends the item under a generated \<^verbatim>\<open>_id\<close>.\<close>

definition insertOne :: "database \<Rightarrow> string \<Rightarrow> Inventory \<Rightarrow> database" where
  "insertOne db cname item =
     db \<lparr> collections := (collections db)
             (cname := collections db cname @ [stored (generate_oid (oid_counter db)) item]),
          oid_counter := Suc (oid_counter db) \<rparr>"

text \<open>
  \<^verbatim>\<open>updateOne({ barcode: b }, { $inc: { stock: n } })\<close>: adds \<open>n\<close> to the stock of
  the first document whose barcode is \<open>b\<close>, as doubles are added, and touches
  nothing else; with no such document it changes nothing. (The driver stores a
  small integer in an integer type, and the store adds integers exactly; the
  result is that of the doubles as long as it stays within \<open>2 ^ 53\<close>.)
\<close>

fun inc_stock_first :: "string \<Rightarrow> number \<Rightarrow> InventoryData list \<Rightarrow> InventoryData list" where
  "inc_stock_first b n [] = []"
| "inc_stock_first b n (d # ds) =
     (if barcode d = b then d \<lparr> stock := double_add (stock d) n \<rparr> # ds
      else d # inc_stock_first b n ds)"

definition updateOne_inc_stock :: "database \<Rightarrow> string \<Rightarrow> string \<Rightarrow> number \<Rightarrow> database" where
  "updateOne_inc_stock db cname b n =
     db \<lparr> collections := (collections db)(cname := inc_stock_first b n (collections db cname)) \<rparr>"

section \<open>InventoryProvider\<close>

text \<open>The reply \<^verbatim>\<open>{ success, message? }\<close>.\<close>

record reply =
  success :: bool
  message :: "string option"

text \<open>\<^verbatim>\<open>db.collection(`inventory_store_${storeId}`)\<close>\<close>

definition inventory_store :: "string \<Rightarrow> string" where
  "inventory_store storeId = ''inventory_store_'' @ storeId"

subsection \<open>addItem\<close>

text \<open>
  The method awaits twice: first \<^verbatim>\<open>findOne\<close>, then \<^verbatim>\<open>insertOne\<close> or
  \<^verbatim>\<open>updateOne\<close>, chosen by what \<^verbatim>\<open>findOne\<close> returned. Each await is one
  operation of the store; \<open>addItem\<close> is the two in sequence.
\<close>

definition addItem_find :: "database \<Rightarrow> string \<Rightarrow> Inventory \<Rightarrow> InventoryData option" where
  "addItem_find db storeId itemData =
     findOne_barcode (collections db (inventory_store storeId)) (barcode itemData)"

definition addItem_write ::
  "database \<Rightarrow> string \<Rightarrow> Inventory \<Rightarrow> InventoryData option \<Rightarrow> database" where
  "addItem_write db storeId itemData product =
     (case product of
        None \<Rightarrow> insertOne db (inventory_store storeId) itemData
      | Some _ \<Rightarrow>
          updateOne_inc_stock db (inventory_store storeId) (barcode itemData) (stock itemData))"

definition addItem :: "database \<Rightarrow> string \<Rightarrow> Inventory \<Rightarrow> database \<times> reply" where
  "addItem db storeId itemData =
     (let product = addItem_find db storeId itemData;
          db' = addItem_write db storeId itemData product
      in (db', \<lparr> success = True, message = Some ''Item added successfully'' \<rparr>))"

subsection \<open>getInventory\<close>

record inventory_reply = reply +
  products :: "InventoryData list"

definition getInventory :: "database \<Rightarrow> string \<Rightarrow> inventory_reply" where
  "getInventory db storeId =
     \<lparr> success = True, message = Some ''Items retrieved successfully'',
       products = collections db (inventory_store storeId) \<rparr>"

text \<open>The documents of a store's partition, and the database nobody has written to.\<close>

definition store_partition :: "database \<Rightarrow> string \<Rightarrow> InventoryData list" where
  "store_partition db storeId = collections db (inventory_store storeId)"

definition empty_db :: database where
  "empty_db = \<lparr> collections = (\<lambda>_. []), oid_counter = 0 \<rparr>"

subsection \<open>instantiateItem\<close>

text \<open>
  \<^verbatim>\<open>new Inventory(..., new Date(), new Date(), ItemData.variants)\<close>: the two clock
  readings are parameters.
\<close>

definition instantiateItem :: "date \<Rightarrow> date \<Rightarrow> 'a Inventory_scheme \<Rightarrow> Inventory" where
  "instantiateItem now1 now2 ItemData =
     \<lparr> barcode = barcode ItemData, name = name ItemData,
       description = description ItemData, price = price ItemData,
       stock = stock ItemData, supplier = supplier ItemData,
       created_at = now1, updated_at = now2, variants = variants ItemData \<rparr>"

section \<open>ObjectId (bson)\<close>

text \<open>
  \<^verbatim>\<open>ObjectId.isValid\<close> and \<^verbatim>\<open>new ObjectId\<close> belong to the bson library. Neither the
  library nor the release the service is built with is in the sources, and the
  releases differ on one point, so the release is a parameter: every release takes
  a string of 24 hex characters (\<^verbatim>\<open>/^[0-9a-fA-F]{24}$/\<close>) for the 12 bytes it
  spells; the releases before 6 also take any string of 12 characters for its 12
  bytes; from release 6 on such a string is not valid and the constructor throws
  on it, as on every other string.
\<close>

datatype bson = Bson_before_6 | Bson_from_6

definition is_hex :: "char \<Rightarrow> bool" where
  "is_hex c = (c \<in> set ''0123456789abcdefABCDEF'')"

definition ObjectId_isValid :: "bson \<Rightarrow> string \<Rightarrow> bool" where
  "ObjectId_isValid lib s =
     ((lib = Bson_before_6 \<and> length s = 12) \<or> (length s = 24 \<and> list_all is_hex s))"

definition hex_value :: "char \<Rightarrow> nat" where
  "hex_value c =
     (if c \<in> set ''0123456789'' then of_char c - 48
      else if c \<in> set ''abcdef'' then of_char c - 87
      else of_char c - 55)"

fun hex_bytes :: "string \<Rightarrow> nat list" where
  "hex_bytes (a # b # r) = (16 * hex_value a + hex_value b) # hex_bytes r"
| "hex_bytes _ = []"

datatype error = BSONError

definition ObjectId_new :: "bson \<Rightarrow> string \<Rightarrow> error + objectid" where
  "ObjectId_new lib s =
     (if lib = Bson_before_6 \<and> length s = 12 then Inr (ObjectId (map of_char s))
      else if length s = 24 \<and> list_all is_hex s then Inr (ObjectId (hex_bytes s))
      else Inl BSONError)"

subsection \<open>getItemByBarcodeOrID\<close>

record item_reply = reply +
  product :: "InventoryData option"

text \<open>
  The result is \<open>Inl\<close> when the method throws (the \<^verbatim>\<open>ObjectId\<close> constructor is the
  one call that can) and \<open>Inr\<close> of the reply when it returns.
\<close>

definition getItemByBarcodeOrID ::
  "bson \<Rightarrow> database \<Rightarrow> string \<Rightarrow> string \<Rightarrow> error + item_reply" where
  "getItemByBarcodeOrID lib db storeId barcode_id =
     (let productsCollection = collections db (inventory_store storeId) in
      if \<not> ObjectId_isValid lib barcode_id then
        (case findOne_barcode productsCollection barcode_id of
           None \<Rightarrow>
             Inr \<lparr> success = False, message = Some ''Item not found'', product = None \<rparr>
         | Some p \<Rightarrow>
             Inr \<lparr> success = True, message = Some ''Item retrieved successfully'',
                   product = Some p \<rparr>)
      else
        (case ObjectId_new lib barcode_id of
           Inl e \<Rightarrow> Inl e
         | Inr oid \<Rightarrow>
             (case findOne_id productsCollection oid of
                None \<Rightarrow>
                  Inr \<lparr> success = False, message = Some ''Item not found'', product = None \<rparr>
              | Some p \<Rightarrow>
                  Inr \<lparr> success = True, message = Some ''Item retrieved successfully'',
                        product = Some p \<rparr>)))"

section \<open>Concurrent calls of addItem\<close>

text \<open>
  A call of \<open>addItem\<close> is a task that is suspended at each \<^verbatim>\<open>await\<close>: before
  \<^verbatim>\<open>findOne\<close>, then before the write with the result of \<^verbatim>\<open>findOne\<close> in hand,
  and then it has returned. Concurrent calls interleave at these points, and each
  store operation is atomic. A schedule names, step by step, the task that runs next.
\<close>

datatype branch = Insert | Increment

datatype task =
    AwaitFind Inventory
  | AwaitWrite Inventory "InventoryData option"
  | Returned branch reply

fun step :: "string \<Rightarrow> database \<Rightarrow> task \<Rightarrow> database \<times> task" where
  "step storeId db (AwaitFind itemData) =
     (db, AwaitWrite itemData (addItem_find db storeId itemData))"
| "step storeId db (AwaitWrite itemData found) =
     (addItem_write db storeId itemData found,
      Returned (if found = None then Insert else Increment)
        \<lparr> success = True, message = Some ''Item added successfully'' \<rparr>)"
| "step storeId db (Returned b r) = (db, Returned b r)"

fun run :: "string \<Rightarrow> nat list \<Rightarrow> database \<times> task list \<Rightarrow> database \<times> task list" where
  "run storeId [] st = st"
| "run storeId (i # sched) (db, ts) =
     (if i < length ts
      then (case step storeId db (ts ! i) of
              (db', t') \<Rightarrow> run storeId sched (db', ts[i := t']))
      else run storeId sched (db, ts))"

fun returned :: "task \<Rightarrow> bool" where
  "returned (Returned _ _) = True"
| "returned _ = False"

text \<open>
  A task that cannot insert once the partition holds a record of barcode \<open>b\<close>: it
  has not read yet and its item has that barcode, or it has read a record, or
  it has returned from the increment branch.
\<close>

fun never_inserts :: "string \<Rightarrow> task \<Rightarrow> bool" where
  "never_inserts b (AwaitFind itemData) = (barcode itemData = b)"
| "never_inserts b (AwaitWrite itemData found) = (found \<noteq> None)"
| "never_inserts b (Returned br r) = (br = Increment)"

text \<open>
  A task that can only increment the record of barcode \<open>b\<close> by \<open>d\<close>: its item has
  that barcode and that stock, and what it read, if it has read, is a record.
\<close>

fun increments :: "string \<Rightarrow> number \<Rightarrow> task \<Rightarrow> bool" where
  "increments b d (AwaitFind itemData) = (barcode itemData = b \<and> stock itemData = d)"
| "increments b d (AwaitWrite itemData found) =
     (barcode itemData = b \<and> stock itemData = d \<and> found \<noteq> None)"
| "increments b d (Returned br r) = True"

text \<open>Calls made one after the other: each runs to its end before the next starts.\<close>

fun addItems :: "database \<Rightarrow> string \<Rightarrow> Inventory list \<Rightarrow> database" where
  "addItems db storeId [] = db"
| "addItems db storeId (itemData # rest) = addItems (fst (addItem db storeId itemData)) storeId rest"

section \<open>Payloads and their validation (joi)\<close>

text \<open>
  A payload arrives as a JavaScript value. An object is the list of its own keys
  with their values, in the order \<^verbatim>\<open>Object.keys\<close> gives them; \<open>get_key\<close> is
  \<^verbatim>\<open>value[key]\<close>, which is \<^verbatim>\<open>undefined\<close> for a key the object does not have.
\<close>

datatype jsvalue =
    JUndefined
  | JNull
  | JBool bool
  | JNumber number
  | JString string
  | JArray "jsvalue list"
  | JObject "(string \<times> jsvalue) list"

definition get_key :: "(string \<times> jsvalue) list \<Rightarrow> string \<Rightarrow> jsvalue" where
  "get_key kvs k = (case map_of kvs k of None \<Rightarrow> JUndefined | Some v \<Rightarrow> v)"

text \<open>
  The part of joi the two schemas use. A schema is a type with its rules, whether
  the key is required, and the values \<^verbatim>\<open>allow\<close> lets through. A string schema
  carries at most one \<^verbatim>\<open>pattern\<close> rule, as the predicate the regular expression
  decides and the text \<^verbatim>\<open>messages\<close> gives its violation; an array schema carries
  its one \<^verbatim>\<open>items\<close> schema and its \<^verbatim>\<open>min\<close>; an object schema its keys in the
  order they are written.
\<close>

datatype schema = Schema joi_type bool "jsvalue list"
and joi_type =
    String_type "((string \<Rightarrow> bool) \<times> string) option"
  | Number_type
  | Array_type schema nat
  | Object_type "(string \<times> schema) list"

definition Joi_string :: schema where
  "Joi_string = Schema (String_type None) False []"

definition Joi_number :: schema where
  "Joi_number = Schema Number_type False []"

definition Joi_array_items_min :: "schema \<Rightarrow> nat \<Rightarrow> schema" where
  "Joi_array_items_min item m = Schema (Array_type item m) False []"

definition Joi_object :: "(string \<times> schema) list \<Rightarrow> schema" where
  "Joi_object keys = Schema (Object_type keys) False []"

fun required :: "schema \<Rightarrow> schema" where
  "required (Schema t _ valids) = Schema t True valids"

fun allow :: "jsvalue \<Rightarrow> schema \<Rightarrow> schema" where
  "allow v (Schema t req valids) = Schema t req (valids @ [v])"

fun pattern_messages :: "(string \<Rightarrow> bool) \<Rightarrow> string \<Rightarrow> schema \<Rightarrow> schema" where
  "pattern_messages re msg (Schema (String_type _) req valids) =
     Schema (String_type (Some (re, msg))) req valids"
| "pattern_messages re msg s = s"

text \<open>\<^verbatim>\<open>/^\d+$/\<close>: one or more characters, each of them a digit 0 to 9.\<close>

definition is_digit :: "char \<Rightarrow> bool" where
  "is_digit c = (c \<in> set ''0123456789'')"

definition digits_only :: "string \<Rightarrow> bool" where
  "digits_only s = (s \<noteq> [] \<and> list_all is_digit s)"

text \<open>
  The strings joi converts to a number before it checks one (its \<^verbatim>\<open>convert\<close>
  preference is on by default):
  \<^verbatim>\<open>/^\s*[+-]?(?:(?:\d+(?:\.\d*)?)|(?:\.\d+))(?:e([+-]?\d+))?\s*$/i\<close>,
  and the double \<^verbatim>\<open>parseFloat\<close> makes of one. The further check joi makes on a
  converted string, that the double prints back with the digits of the string, is
  left out.
\<close>

definition is_space :: "char \<Rightarrow> bool" where
  "is_space c = (of_char c \<in> set [9, 10, 11, 12, 13, 32, 160 :: nat])"

definition drop_sign :: "string \<Rightarrow> string" where
  "drop_sign s = (case s of [] \<Rightarrow> [] | c # r \<Rightarrow> if c = CHR ''+'' \<or> c = CHR ''-'' then r else s)"

definition after_mantissa :: "string \<Rightarrow> string option" where
  "after_mantissa s =
     (let r = dropWhile is_digit s in
      if takeWhile is_digit s \<noteq> [] then
        (case r of
           [] \<Rightarrow> Some r
         | c # r' \<Rightarrow> if c = CHR ''.'' then Some (dropWhile is_digit r') else Some r)
      else
        (case r of
           [] \<Rightarrow> None
         | c # r' \<Rightarrow>
             if c = CHR ''.'' \<and> takeWhile is_digit r' \<noteq> []
             then Some (dropWhile is_digit r') else None))"

definition exponent_or_end :: "string \<Rightarrow> bool" where
  "exponent_or_end s =
     (case s of
        [] \<Rightarrow> True
      | c # r \<Rightarrow> (c = CHR ''e'' \<or> c = CHR ''E'') \<and> digits_only (drop_sign r))"

definition numeric_string :: "string \<Rightarrow> bool" where
  "numeric_string s =
     (let t = rev (dropWhile is_space (rev (dropWhile is_space s))) in
      case after_mantissa (drop_sign t) of
        None \<Rightarrow> False
      | Some r \<Rightarrow> exponent_or_end r)"

definition digits_value :: "string \<Rightarrow> nat" where
  "digits_value ds = foldl (\<lambda>n c. 10 * n + (of_char c - 48)) 0 ds"

definition pow10 :: "int \<Rightarrow> real" where
  "pow10 k = (if 0 \<le> k then 10 ^ nat k else 1 / 10 ^ nat (- k))"

definition exponent_value :: "string \<Rightarrow> int" where
  "exponent_value s =
     (case s of
        [] \<Rightarrow> 0
      | c # r \<Rightarrow>
          (case r of
             [] \<Rightarrow> 0
           | c' # r' \<Rightarrow>
               if c' = CHR ''-'' then - int (digits_value r') else int (digits_value (drop_sign r))))"

definition parseFloat :: "string \<Rightarrow> number" where
  "parseFloat s =
     (let t = rev (dropWhile is_space (rev (dropWhile is_space s)));
          u = drop_sign t;
          whole = takeWhile is_digit u;
          r = dropWhile is_digit u;
          fraction = (case r of [] \<Rightarrow> [] | c # r' \<Rightarrow>
                        if c = CHR ''.'' then takeWhile is_digit r' else []);
          e = (case r of [] \<Rightarrow> [] | c # r' \<Rightarrow>
                 if c = CHR ''.'' then dropWhile is_digit r' else r);
          magnitude = real (digits_value (whole @ fraction)) / 10 ^ length fraction *
                      pow10 (exponent_value e)
      in round_double (if take 1 t = ''-'' then - magnitude else magnitude))"

text \<open>\<^verbatim>\<open>Number.MAX_SAFE_INTEGER\<close>\<close>

definition MAX_SAFE_INTEGER :: number where
  "MAX_SAFE_INTEGER = 9007199254740991"

text \<open>
  Paths and labels. The path of a key is its parent's path, a dot and the key; the
  path of an array item is its parent's path and the index in brackets. A message
  names the path between double quotes, and \<^verbatim>\<open>value\<close> at the root.
\<close>

fun show_nat :: "nat \<Rightarrow> string" where
  "show_nat n =
     (if n < 10 then [char_of (48 + n)]
      else show_nat (n div 10) @ [char_of (48 + n mod 10)])"

definition key_path :: "string \<Rightarrow> string \<Rightarrow> string" where
  "key_path path k = (if path = [] then k else path @ ''.'' @ k)"

definition index_path :: "string \<Rightarrow> nat \<Rightarrow> string" where
  "index_path path i = path @ ''['' @ show_nat i @ '']''"

definition label :: "string \<Rightarrow> string" where
  "label path = [CHR 0x22] @ (if path = [] then ''value'' else path) @ [CHR 0x22]"

text \<open>
  \<^verbatim>\<open>schema.validate(value)\<close> with joi's default preferences (\<^verbatim>\<open>abortEarly\<close>,
  no unknown keys): the message of the first violation, or \<open>None\<close> when there is
  none. (A number that is \<^verbatim>\<open>NaN\<close> or an infinity, which joi refuses, is not a
  value of the model.) A value is checked in this order: presence, the allowed values, the type,
  then the rules in the order they were added. An object's keys are checked in the
  order of the schema, and after them the first own key the schema does not know
  is reported. An array's items are checked in order against the one item schema,
  whose violation is reported as it is.
\<close>

fun validate_items :: "(string \<Rightarrow> jsvalue \<Rightarrow> string option) \<Rightarrow> string \<Rightarrow> nat \<Rightarrow> jsvalue list \<Rightarrow> string option" where
  "validate_items check path i [] = None"
| "validate_items check path i (v # vs) =
     (if v = JUndefined
      then Some (label (index_path path i) @ '' must not be a sparse array item'')
      else (case check (index_path path i) v of
              Some e \<Rightarrow> Some e
            | None \<Rightarrow> validate_items check path (Suc i) vs))"

fun validate :: "schema \<Rightarrow> string \<Rightarrow> jsvalue \<Rightarrow> string option"
and validate_type :: "joi_type \<Rightarrow> string \<Rightarrow> jsvalue \<Rightarrow> string option"
and validate_keys :: "(string \<times> schema) list \<Rightarrow> string \<Rightarrow> (string \<times> jsvalue) list \<Rightarrow> string option"
where
  "validate (Schema t req valids) path v =
     (if v = JUndefined then
        (if req then Some (label path @ '' is required'') else None)
      else if v \<in> set valids then None
      else validate_type t path v)"
| "validate_type (String_type pat) path v =
     (case v of
        JString s \<Rightarrow>
          if s = [] then Some (label path @ '' is not allowed to be empty'')
          else (case pat of
                  None \<Rightarrow> None
                | Some (re, msg) \<Rightarrow> if re s then None else Some msg)
      | _ \<Rightarrow> Some (label path @ '' must be a string''))"
| "validate_type Number_type path v =
     (case v of
        JNumber x \<Rightarrow>
          if x > MAX_SAFE_INTEGER \<or> x < - MAX_SAFE_INTEGER
          then Some (label path @ '' must be a safe number'') else None
      | JString s \<Rightarrow>
          if numeric_string s then
            (if parseFloat s > MAX_SAFE_INTEGER \<or> parseFloat s < - MAX_SAFE_INTEGER
             then Some (label path @ '' must be a safe number'') else None)
          else Some (label path @ '' must be a number'')
      | _ \<Rightarrow> Some (label path @ '' must be a number''))"
| "validate_type (Array_type item m) path v =
     (case v of
        JArray vs \<Rightarrow>
          (case validate_items (validate item) path 0 vs of
             Some e \<Rightarrow> Some e
           | None \<Rightarrow>
               if length vs < m
               then Some (label path @ '' must contain at least '' @ show_nat m @ '' items'')
               else None)
      | _ \<Rightarrow> Some (label path @ '' must be an array''))"
| "validate_type (Object_type keys) path v =
     (case v of
        JObject kvs \<Rightarrow>
          (case validate_keys keys path kvs of
             Some e \<Rightarrow> Some e
           | None \<Rightarrow>
               (case find (\<lambda>k. k \<notin> set (map fst keys)) (map fst kvs) of
                  Some k \<Rightarrow> Some (label (key_path path k) @ '' is not allowed'')
                | None \<Rightarrow> None))
      | _ \<Rightarrow> Some (label path @ '' must be of type object''))"
| "validate_keys [] path kvs = None"
| "validate_keys ((k, s) # keys) path kvs =
     (case validate s (key_path path k) (get_key kvs k) of
        Some e \<Rightarrow> Some e
      | None \<Rightarrow> validate_keys keys path kvs)"

subsection \<open>validateItemData\<close>

text \<open>The text given for \<^verbatim>\<open>string.pattern.base\<close>; it names the key between single quotes.\<close>

definition barcode_pattern_message :: string where
  "barcode_pattern_message =
     [CHR 0x27] @ ''barcode'' @ [CHR 0x27] @ '' must be a string of numbers''"

definition itemData_schema :: schema where
  "itemData_schema = Joi_object
     [(''barcode'', required (pattern_messages digits_only barcode_pattern_message Joi_string)),
      (''name'', required Joi_string),
      (''description'', allow (JString []) Joi_string),
      (''price'', required Joi_number),
      (''stock'', required Joi_number),
      (''supplier'', allow (JString []) Joi_string),
      (''variants'',
         Joi_array_items_min (Joi_object [(''name'', required Joi_string)]) 0)]"

definition validateItemData :: "jsvalue \<Rightarrow> reply" where
  "validateItemData itemData =
     (case validate itemData_schema [] itemData of
        Some m \<Rightarrow> \<lparr> success = False, message = Some m \<rparr>
      | None \<Rightarrow> \<lparr> success = True, message = None \<rparr>)"

section \<open>The shared catalog (api-product)\<close>

text \<open>\<^verbatim>\<open>class Product\<close> of \<^verbatim>\<open>entities/prodcut/prodcut.entity.ts\<close>, the one the provider imports.\<close>

record Product =
  product_barcode :: string
  product_name :: string
  product_description :: string
  category_id :: string
  product_created_at :: date
  product_updated_at :: date
  product_variants :: "Variant list"

text \<open>
  Modelled from the spec: the catalog's lookup by barcode
  (\<^verbatim>\<open>ProductProvider.getProductByBarcode\<close>, which the controller calls and the
  sources do not contain). Given a barcode it returns the canonical name and
  description of the catalog's record for it, or not found. The catalog is the
  \<^verbatim>\<open>products\<close> collection, searched as \<^verbatim>\<open>addProduct\<close> searches it.
\<close>

definition catalog_lookup :: "Product list \<Rightarrow> string \<Rightarrow> (string \<times> string) option" where
  "catalog_lookup catalog b =
     map_option (\<lambda>p. (product_name p, product_description p))
       (find (\<lambda>p. product_barcode p = b) catalog)"

text \<open>
  The two services side by side. \<^verbatim>\<open>InventoryProvider.addItem\<close> gets its database
  from the inventory service's own \<^verbatim>\<open>DatabaseProvider\<close> and calls nothing else, so
  in the state of both services it is \<open>addItem\<close> on the inventory database.
\<close>

record services =
  inventory_db :: database
  products_db :: "Product list"

definition services_addItem :: "services \<Rightarrow> string \<Rightarrow> Inventory \<Rightarrow> services \<times> reply" where
  "services_addItem sys storeId itemData =
     (case addItem (inventory_db sys) storeId itemData of
        (db', r) \<Rightarrow> (sys \<lparr> inventory_db := db' \<rparr>, r))"

section \<open>Example data\<close>

definition cola :: Inventory where
  "cola = \<lparr> barcode = ''1001'', name = ''Cola'', description = ''Soda'', price = 3 / 2,
            stock = 10, supplier = ''Acme'', created_at = 100, updated_at = 100,
            variants = [] \<rparr>"

definition restock :: Inventory where
  "restock = \<lparr> barcode = ''1001'', name = ''Pepsi'', description = ''Other'', price = 2,
               stock = 5, supplier = [], created_at = 200, updated_at = 200,
               variants = [] \<rparr>"

definition upc_item :: Inventory where
  "upc_item = \<lparr> barcode = ''036000291452'', name = ''Tissues'', description = [], price = 4,
                stock = 7, supplier = [], created_at = 100, updated_at = 100,
                variants = [] \<rparr>"

definition long_item :: Inventory where
  "long_item = \<lparr> barcode = ''123456789012345678901234'', name = ''Crate'', description = [],
                 price = 9, stock = 1, supplier = [], created_at = 100, updated_at = 100,
                 variants = [] \<rparr>"

definition bulk :: Inventory where
  "bulk = \<lparr> barcode = ''1001'', name = ''Cola'', description = ''Soda'', price = 3 / 2,
            stock = 9007199254740991, supplier = ''Acme'', created_at = 100, updated_at = 100,
            variants = [] \<rparr>"

definition one_more :: Inventory where
  "one_more = \<lparr> barcode = ''1001'', name = ''Cola'', description = ''Soda'', price = 3 / 2,
                stock = 1, supplier = ''Acme'', created_at = 200, updated_at = 200,
                variants = [] \<rparr>"

definition one_less :: Inventory where
  "one_less = \<lparr> barcode = ''1001'', name = ''Cola'', description = ''Soda'', price = 3 / 2,
                stock = - 1, supplier = ''Acme'', created_at = 200, updated_at = 200,
                variants = [] \<rparr>"

definition catalog_cola :: Product where
  "catalog_cola = \<lparr> product_barcode = ''1001'', product_name = ''Cola'',
                    product_description = ''Soda'', category_id = ''7'',
                    product_created_at = 50, product_updated_at = 50,
                    product_variants = [] \<rparr>"

section \<open>Lemmas\<close>

subsection \<open>Addition of doubles\<close>

lemma round_half_even_of_int: "round_half_even (of_int m) = m"
  by (simp add: round_half_even_def)

lemma round_double_safe_int:
  assumes "\<bar>n\<bar> \<le> 2 ^ 53"
  shows "round_double (of_int n) = of_int n"
proof (cases "n = 0")
  case True
  then show ?thesis by (simp add: round_double_def)
next
  case False
  define a where "a = \<bar>n\<bar>"
  have a: "0 < a" "a \<le> 2 ^ 53" using False assms by (simp_all add: a_def)
  define e where "e = bitlen a - 1"
  have abs_n: "\<bar>real_of_int n\<bar> = of_int a"
    by (simp add: a_def)
  have "1 \<le> real_of_int a"
    using a(1) by simp
  then have be: "binade (of_int n) = e"
    unfolding binade_def abs_n by (simp add: e_def)
  from bitlen_bounds [OF a(1)] have lo: "2 ^ nat e \<le> a"
    by (simp add: e_def)
  have e0: "0 \<le> e"
    using a(1) by (simp add: e_def bitlen_alt_def)
  have le53: "(2::int) ^ nat e \<le> 2 ^ 53" using lo a(2) by linarith
  have "nat e \<le> 53"
  proof (rule ccontr)
    assume "\<not> nat e \<le> 53"
    then have "54 \<le> nat e" by simp
    then have "(2::int) ^ 54 \<le> 2 ^ nat e" by (rule power_increasing) simp
    with le53 show False by simp
  qed
  then have e53: "e \<le> 53" by linarith
  have q: "quantum (of_int n) = pow2 (e - 52)"
    using e0 by (simp add: quantum_def be max_def)
  show ?thesis
  proof (cases "e \<le> 52")
    case True
    define j where "j = nat (52 - e)"
    have pq: "pow2 (e - 52) = 1 / 2 ^ j"
    proof (cases "e = 52")
      case True then show ?thesis by (simp add: pow2_def j_def)
    next
      case False
      with \<open>e \<le> 52\<close> have "e < 52" by simp
      then show ?thesis by (simp add: pow2_def j_def)
    qed
    have "real_of_int n / (1 / 2 ^ j) = of_int (n * 2 ^ j)" by simp
    then have "round_half_even (of_int n / quantum (of_int n)) = n * 2 ^ j"
      unfolding q pq by (simp only: round_half_even_of_int)
    then show ?thesis
      using \<open>n \<noteq> 0\<close> by (simp add: round_double_def q pq)
  next
    case False
    with e53 have e: "e = 53" by simp
    with lo a(2) have "a = 2 ^ 53" by simp
    then have n: "n = 2 ^ 53 \<or> n = - (2 ^ 53)" by (auto simp: a_def abs_if split: if_splits)
    have qv: "quantum (of_int n) = 2"
      by (simp add: q e pow2_def)
    from n have half: "real_of_int n / 2 = of_int (n div 2)" and twice: "(n div 2) * 2 = n"
      by auto
    have "round_half_even (of_int n / quantum (of_int n)) = n div 2"
      unfolding qv half by (rule round_half_even_of_int)
    then have "round_double (of_int n) = of_int ((n div 2) * 2)"
      using \<open>n \<noteq> 0\<close> by (simp add: round_double_def qv)
    then show ?thesis
      by (simp only: twice)
  qed
qed

text \<open>Integers add exactly as long as the sum stays within \<open>2 ^ 53\<close>.\<close>

lemma double_add_safe:
  assumes "x \<in> \<int>" "y \<in> \<int>" "\<bar>x + y\<bar> \<le> 9007199254740992"
  shows "double_add x y = x + y"
proof -
  from assms(1,2) obtain m k :: int where x: "x = of_int m" and y: "y = of_int k"
    by (auto elim!: Ints_cases)
  have s: "x + y = of_int (m + k)" by (simp add: x y)
  have "real_of_int \<bar>m + k\<bar> \<le> 9007199254740992"
    using assms(3) unfolding s by (simp only: of_int_abs)
  then have "\<bar>m + k\<bar> \<le> 9007199254740992" by linarith
  then have "\<bar>m + k\<bar> \<le> 2 ^ 53" by simp
  from round_double_safe_int [OF this] show ?thesis
    by (simp add: double_add_def s)
qed

lemma bitlen_above_2_53: "bitlen 9007199254740993 = 54"
  using bitlen_twopow_add_eq [of 1 53] by simp

text \<open>The double after \<open>2 ^ 53\<close> is \<open>2 ^ 53 + 2\<close>: adding one is lost.\<close>

lemma double_add_2_53_one: "double_add 9007199254740992 1 = 9007199254740992"
  by (simp add: double_add_def round_double_def quantum_def binade_def bitlen_above_2_53 pow2_def
      round_half_even_def)

subsection \<open>The store operations and addItem\<close>

lemma find_inc_stock_first:
  "find (\<lambda>d. barcode d = b) (inc_stock_first b n ds) =
     map_option (\<lambda>d. d \<lparr> stock := double_add (stock d) n \<rparr>) (find (\<lambda>d. barcode d = b) ds)"
  by (induction ds) auto

lemma length_inc_stock_first: "length (inc_stock_first b n ds) = length ds"
  by (induction ds) auto

lemma map_barcode_inc_stock_first:
  "map barcode (inc_stock_first b n ds) = map barcode ds"
  by (induction ds) auto

lemma partition_insertOne:
  "store_partition (insertOne db (inventory_store storeId) item) storeId =
     store_partition db storeId @ [stored (generate_oid (oid_counter db)) item]"
  by (simp add: store_partition_def insertOne_def)

lemma partition_updateOne:
  "store_partition (updateOne_inc_stock db (inventory_store storeId) b n) storeId =
     inc_stock_first b n (store_partition db storeId)"
  by (simp add: store_partition_def updateOne_inc_stock_def)

lemma partition_addItem:
  "store_partition (fst (addItem db storeId itemData)) storeId =
     (case findOne_barcode (store_partition db storeId) (barcode itemData) of
        None \<Rightarrow> store_partition db storeId @ [stored (generate_oid (oid_counter db)) itemData]
      | Some _ \<Rightarrow> inc_stock_first (barcode itemData) (stock itemData) (store_partition db storeId))"
  by (simp add: addItem_def addItem_find_def addItem_write_def partition_insertOne
      partition_updateOne store_partition_def [symmetric] split: option.split)

lemma stored_fields [simp]:
  "barcode (stored oid item) = barcode item" "stock (stored oid item) = stock item"
  "name (stored oid item) = name item" "description (stored oid item) = description item"
  "doc_id (stored oid item) = oid"
  by (simp_all add: stored_def)

lemma partition_empty_db [simp]: "store_partition empty_db storeId = []"
  by (simp add: store_partition_def empty_db_def)

lemma oid_counter_empty_db: "oid_counter empty_db = 0"
  by (simp add: empty_db_def)

lemma generate_oid_0: "generate_oid 0 = ObjectId [0,0,0,0,0,0,0,0,0,0,0,0]"
  by (simp add: generate_oid_def upt_rec)

lemma truncate_stored: "Inventory.truncate (stored oid item) = item"
  by (simp add: stored_def Inventory.truncate_def)

lemma findOne_barcode_None_iff:
  "findOne_barcode docs b = None \<longleftrightarrow> b \<notin> barcode ` set docs"
  by (auto simp: findOne_barcode_def find_None_iff)

lemma addItems_new_barcodes:
  "distinct (map barcode items) \<Longrightarrow>
   list_all (\<lambda>it. findOne_barcode (store_partition db storeId) (barcode it) = None) items \<Longrightarrow>
   map Inventory.truncate (store_partition (addItems db storeId items) storeId) =
     map Inventory.truncate (store_partition db storeId) @ items"
proof (induction items arbitrary: db)
  case Nil
  then show ?case by simp
next
  case (Cons it items)
  let ?db' = "fst (addItem db storeId it)"
  from Cons.prems have new: "findOne_barcode (store_partition db storeId) (barcode it) = None"
    by simp
  then have part: "store_partition ?db' storeId =
      store_partition db storeId @ [stored (generate_oid (oid_counter db)) it]"
    by (simp add: partition_addItem)
  have "distinct (map barcode items)"
    using Cons.prems by simp
  moreover have "list_all (\<lambda>it'. findOne_barcode (store_partition ?db' storeId) (barcode it') = None) items"
    using Cons.prems by (auto simp: part findOne_barcode_None_iff list_all_iff image_iff)
  ultimately have "map Inventory.truncate (store_partition (addItems ?db' storeId items) storeId) =
      map Inventory.truncate (store_partition ?db' storeId) @ items"
    by (rule Cons.IH)
  then show ?case
    by (simp add: part truncate_stored)
qed

subsection \<open>getItemByBarcodeOrID\<close>

lemma ObjectId_new_valid:
  "ObjectId_isValid lib s \<Longrightarrow> \<exists>oid. ObjectId_new lib s = Inr oid"
  by (auto simp: ObjectId_isValid_def ObjectId_new_def)

lemma getItem_by_barcode:
  "\<not> ObjectId_isValid lib s \<Longrightarrow>
   getItemByBarcodeOrID lib db storeId s =
     Inr (case findOne_barcode (store_partition db storeId) s of
            None \<Rightarrow> \<lparr> success = False, message = Some ''Item not found'', product = None \<rparr>
          | Some p \<Rightarrow> \<lparr> success = True, message = Some ''Item retrieved successfully'',
                        product = Some p \<rparr>)"
  by (simp add: getItemByBarcodeOrID_def store_partition_def split: option.split)

lemma getItem_by_id:
  "ObjectId_isValid lib s \<Longrightarrow> ObjectId_new lib s = Inr oid \<Longrightarrow>
   getItemByBarcodeOrID lib db storeId s =
     Inr (case findOne_id (store_partition db storeId) oid of
            None \<Rightarrow> \<lparr> success = False, message = Some ''Item not found'', product = None \<rparr>
          | Some p \<Rightarrow> \<lparr> success = True, message = Some ''Item retrieved successfully'',
                        product = Some p \<rparr>)"
  by (simp add: getItemByBarcodeOrID_def store_partition_def split: option.split)

lemma partition_cola: "store_partition (fst (addItem empty_db ''7'' cola)) ''7'' =
    [stored (generate_oid 0) cola]"
  by (simp add: partition_addItem findOne_barcode_def oid_counter_empty_db)

lemma is_digit_is_hex: "is_digit c \<Longrightarrow> is_hex c"
  by (auto simp: is_digit_def is_hex_def)

lemma digits_only_hex: "digits_only b \<Longrightarrow> list_all is_hex b"
  by (auto simp: digits_only_def list_all_iff is_digit_is_hex)

lemma partition_upc: "store_partition (fst (addItem empty_db ''7'' upc_item)) ''7'' =
    [stored (generate_oid 0) upc_item]"
  by (simp add: partition_addItem findOne_barcode_def oid_counter_empty_db)

lemma partition_long: "store_partition (fst (addItem empty_db ''7'' long_item)) ''7'' =
    [stored (generate_oid 0) long_item]"
  by (simp add: partition_addItem findOne_barcode_def oid_counter_empty_db)

subsection \<open>validateItemData\<close>

lemma validate_barcode_key:
  "validate (required (pattern_messages digits_only barcode_pattern_message Joi_string))
     ''barcode'' (JString s) =
   (if s = [] then Some (label ''barcode'' @ '' is not allowed to be empty'')
    else if digits_only s then None else Some barcode_pattern_message)"
  by (simp add: Joi_string_def)

lemma validateItemData_object:
  "validateItemData (JObject kvs) =
     (case validate_keys
        [(''barcode'', required (pattern_messages digits_only barcode_pattern_message Joi_string)),
         (''name'', required Joi_string),
         (''description'', allow (JString []) Joi_string),
         (''price'', required Joi_number),
         (''stock'', required Joi_number),
         (''supplier'', allow (JString []) Joi_string),
         (''variants'',
            Joi_array_items_min (Joi_object [(''name'', required Joi_string)]) 0)] [] kvs of
        Some m \<Rightarrow> \<lparr> success = False, message = Some m \<rparr>
      | None \<Rightarrow>
          (case find (\<lambda>k. k \<notin> set [''barcode'', ''name'', ''description'', ''price'', ''stock'',
                                   ''supplier'', ''variants'']) (map fst kvs) of
             Some k \<Rightarrow> \<lparr> success = False, message = Some (label k @ '' is not allowed'') \<rparr>
           | None \<Rightarrow> \<lparr> success = True, message = None \<rparr>))"
  by (simp add: validateItemData_def itemData_schema_def Joi_object_def key_path_def
      split: option.split)

lemma bad_barcode_rejected:
  assumes "get_key kvs ''barcode'' = JString s" "s \<noteq> []" "\<not> digits_only s"
  shows "validateItemData (JObject kvs) = \<lparr> success = False, message = Some barcode_pattern_message \<rparr>"
  using assms by (simp add: validateItemData_object key_path_def validate_barcode_key)

lemma missing_name_rejected:
  assumes "get_key kvs ''name'' = JUndefined"
  shows "\<not> success (validateItemData (JObject kvs)) \<and> message (validateItemData (JObject kvs)) \<noteq> None"
  using assms
  by (simp add: validateItemData_object key_path_def Joi_string_def split: option.split)

lemma missing_name_message:
  assumes "get_key kvs ''barcode'' = JString b" "digits_only b" "get_key kvs ''name'' = JUndefined"
  shows "validateItemData (JObject kvs) =
     \<lparr> success = False, message = Some (label ''name'' @ '' is required'') \<rparr>"
proof -
  have "b \<noteq> []" using assms(2) by (auto simp: digits_only_def)
  then show ?thesis
    using assms
    by (simp add: validateItemData_object key_path_def validate_barcode_key)
       (simp add: Joi_string_def)
qed

lemmas eval_defs = get_key_def key_path_def index_path_def label_def digits_only_def is_digit_def
  Joi_string_def Joi_number_def Joi_array_items_min_def Joi_object_def MAX_SAFE_INTEGER_def
  barcode_pattern_message_def

lemma show_nat_0: "show_nat 0 = ''0''"
  by code_simp

subsection \<open>Calls one after the other\<close>

lemma count_barcode_inc_stock_first:
  "count_list (map barcode (inc_stock_first b n ds)) b' = count_list (map barcode ds) b'"
  by (simp add: map_barcode_inc_stock_first)

lemma findOne_barcode_Some_count:
  "findOne_barcode ds b = Some p \<Longrightarrow> 1 \<le> count_list (map barcode ds) b"
  by (induction ds) (auto simp: findOne_barcode_def split: if_splits)

lemma findOne_barcode_None_count:
  "findOne_barcode ds b = None \<Longrightarrow> count_list (map barcode ds) b = 0"
  by (induction ds) (auto simp: findOne_barcode_def split: if_splits)

lemma find_append_split:
  "find P (xs @ ys) = (case find P xs of None \<Rightarrow> find P ys | Some x \<Rightarrow> Some x)"
  by (induction xs) auto

lemma run_sequential:
  "run storeId [0, 0, 1, 1] (db, [AwaitFind item1, AwaitFind item2]) =
     (addItems db storeId [item1, item2],
      [Returned (if addItem_find db storeId item1 = None then Insert else Increment)
         \<lparr> success = True, message = Some ''Item added successfully'' \<rparr>,
       Returned (if addItem_find (fst (addItem db storeId item1)) storeId item2 = None
                 then Insert else Increment)
         \<lparr> success = True, message = Some ''Item added successfully'' \<rparr>])"
  by (simp add: addItem_def)

lemma second_call_finds:
  assumes "barcode item1 = barcode item2"
  shows "addItem_find (fst (addItem db storeId item1)) storeId item2 \<noteq> None"
proof (cases "findOne_barcode (store_partition db storeId) (barcode item1)")
  case None
  then show ?thesis
    using assms
    by (simp add: addItem_find_def store_partition_def [symmetric] partition_addItem
        findOne_barcode_def find_append_split)
next
  case (Some p)
  then show ?thesis
    using assms
    by (simp add: addItem_find_def store_partition_def [symmetric] partition_addItem)
       (simp add: findOne_barcode_def find_inc_stock_first)
qed

lemma length_filter_update:
  "i < length xs \<Longrightarrow>
   length (filter P (xs[i := y])) + (if P (xs ! i) then 1 else 0) =
   length (filter P xs) + (if P y then 1 else 0)"
proof (induction xs arbitrary: i)
  case Nil
  then show ?case by simp
next
  case (Cons x xs)
  then show ?case
    by (cases i) auto
qed

lemma length_run: "length (snd (run storeId sched (db, ts))) = length ts"
proof (induction sched arbitrary: db ts)
  case Nil
  then show ?case by simp
next
  case (Cons i sched)
  then show ?case
    by (auto split: prod.split)
qed

subsection \<open>A call that reads once a record exists\<close>

lemma present_iff: "findOne_barcode ds b \<noteq> None \<longleftrightarrow> b \<in> set (map barcode ds)"
  by (auto simp: findOne_barcode_def find_None_iff)

lemma step_keeps_present:
  assumes "findOne_barcode (store_partition db storeId) b \<noteq> None"
    and "step storeId db t = (db', t')"
  shows "findOne_barcode (store_partition db' storeId) b \<noteq> None"
proof (cases t)
  case (AwaitFind it)
  with assms show ?thesis by auto
next
  case (AwaitWrite it found)
  with assms(2) have db': "db' = addItem_write db storeId it found"
    by simp
  have pres: "b \<in> set (map barcode (store_partition db storeId))"
    using assms(1) by (simp only: present_iff)
  show ?thesis
  proof (cases found)
    case None
    then have "store_partition db' storeId =
        store_partition db storeId @ [stored (generate_oid (oid_counter db)) it]"
      by (simp add: db' addItem_write_def partition_insertOne)
    then show ?thesis
      unfolding present_iff using pres by simp
  next
    case (Some f)
    then have "map barcode (store_partition db' storeId) = map barcode (store_partition db storeId)"
      by (simp add: db' addItem_write_def partition_updateOne map_barcode_inc_stock_first)
    then show ?thesis
      unfolding present_iff using pres by simp
  qed
next
  case (Returned br r)
  with assms show ?thesis by auto
qed

lemma step_never_inserts:
  assumes "findOne_barcode (store_partition db storeId) b \<noteq> None"
    and "never_inserts b t"
    and "step storeId db t = (db', t')"
  shows "never_inserts b t'"
proof (cases t)
  case (AwaitFind it)
  with assms show ?thesis
    by (auto simp: addItem_find_def store_partition_def)
next
  case (AwaitWrite it found)
  with assms show ?thesis by auto
next
  case (Returned br r)
  with assms show ?thesis by auto
qed

lemma step_never_inserts_barcodes:
  assumes "never_inserts b t" and "step storeId db t = (db', t')"
  shows "map barcode (store_partition db' storeId) = map barcode (store_partition db storeId)"
proof (cases t)
  case (AwaitFind it)
  with assms show ?thesis by auto
next
  case (AwaitWrite it found)
  with assms obtain f where "found = Some f" by auto
  with assms(2) AwaitWrite show ?thesis
    by (auto simp: addItem_write_def partition_updateOne map_barcode_inc_stock_first)
next
  case (Returned br r)
  with assms show ?thesis by auto
qed

lemma run_never_inserts:
  "findOne_barcode (store_partition db storeId) b \<noteq> None \<Longrightarrow>
   i < length ts \<Longrightarrow> never_inserts b (ts ! i) \<Longrightarrow>
   run storeId sched (db, ts) = (db', ts') \<Longrightarrow>
   never_inserts b (ts' ! i) \<and> findOne_barcode (store_partition db' storeId) b \<noteq> None"
proof (induction sched arbitrary: db ts)
  case Nil
  then show ?case by simp
next
  case (Cons j sched)
  show ?case
  proof (cases "j < length ts")
    case False
    with Cons.prems(4) have "run storeId sched (db, ts) = (db', ts')"
      by simp
    from Cons.IH [OF Cons.prems(1,2,3) this] show ?thesis .
  next
    case True
    obtain db1 t1 where st: "step storeId db (ts ! j) = (db1, t1)"
      by (cases "step storeId db (ts ! j)")
    with True Cons.prems(4) have r: "run storeId sched (db1, ts[j := t1]) = (db', ts')"
      by simp
    have p1: "findOne_barcode (store_partition db1 storeId) b \<noteq> None"
      using step_keeps_present [OF Cons.prems(1) st] .
    have i1: "i < length (ts[j := t1])"
      using Cons.prems(2) by simp
    have n1: "never_inserts b (ts[j := t1] ! i)"
    proof (cases "j = i")
      case True
      then show ?thesis
        using step_never_inserts [OF Cons.prems(1) _ st] Cons.prems(2,3) by simp
    next
      case False
      then show ?thesis
        using Cons.prems(3) by simp
    qed
    from Cons.IH [OF p1 i1 n1 r] show ?thesis .
  qed
qed

lemma run_all_never_insert:
  "findOne_barcode (store_partition db storeId) b \<noteq> None \<Longrightarrow>
   list_all (never_inserts b) ts \<Longrightarrow>
   run storeId sched (db, ts) = (db', ts') \<Longrightarrow>
   list_all (never_inserts b) ts' \<and>
   map barcode (store_partition db' storeId) = map barcode (store_partition db storeId)"
proof (induction sched arbitrary: db ts)
  case Nil
  then show ?case by simp
next
  case (Cons j sched)
  show ?case
  proof (cases "j < length ts")
    case False
    with Cons.prems(3) have "run storeId sched (db, ts) = (db', ts')"
      by simp
    from Cons.IH [OF Cons.prems(1,2) this] show ?thesis .
  next
    case True
    obtain db1 t1 where st: "step storeId db (ts ! j) = (db1, t1)"
      by (cases "step storeId db (ts ! j)")
    with True Cons.prems(3) have r: "run storeId sched (db1, ts[j := t1]) = (db', ts')"
      by simp
    have tj: "never_inserts b (ts ! j)"
      using True Cons.prems(2) by (simp add: list_all_length)
    have p1: "findOne_barcode (store_partition db1 storeId) b \<noteq> None"
      using step_keeps_present [OF Cons.prems(1) st] .
    have "never_inserts b t1"
      using step_never_inserts [OF Cons.prems(1) tj st] .
    then have a1: "list_all (never_inserts b) (ts[j := t1])"
      using Cons.prems(2)
      by (auto simp: list_all_iff dest: set_update_subset_insert [THEN subsetD])
    have b1: "map barcode (store_partition db1 storeId) = map barcode (store_partition db storeId)"
      using step_never_inserts_barcodes [OF tj st] .
    from Cons.IH [OF p1 a1 r] b1 show ?thesis by simp
  qed
qed

subsection \<open>Increments of integer stocks\<close>

lemma abs_sum_nonneg: "0 \<le> sum_list (map (\<lambda>q. \<bar>stock q\<bar>) qs)"
  by (induction qs) auto

lemma addItems_increments:
  "findOne_barcode (store_partition db storeId) b = Some p \<Longrightarrow>
   stock p \<in> \<int> \<Longrightarrow>
   list_all (\<lambda>q. barcode q = b \<and> stock q \<in> \<int>) qs \<Longrightarrow>
   \<bar>stock p\<bar> + sum_list (map (\<lambda>q. \<bar>stock q\<bar>) qs) \<le> 9007199254740992 \<Longrightarrow>
   findOne_barcode (store_partition (addItems db storeId qs) storeId) b =
     Some (p \<lparr> stock := stock p + sum_list (map stock qs) \<rparr>)"
proof (induction qs arbitrary: db p)
  case Nil
  then show ?case by simp
next
  case (Cons q qs)
  let ?db' = "fst (addItem db storeId q)"
  let ?p' = "p \<lparr> stock := stock p + stock q \<rparr>"
  from Cons.prems have bq: "barcode q = b" and iq: "stock q \<in> \<int>"
    and rest: "list_all (\<lambda>q. barcode q = b \<and> stock q \<in> \<int>) qs"
    by simp_all
  from Cons.prems(4) have bound: "\<bar>stock p\<bar> + \<bar>stock q\<bar> + sum_list (map (\<lambda>q. \<bar>stock q\<bar>) qs)
      \<le> 9007199254740992"
    by simp
  have "\<bar>stock p + stock q\<bar> \<le> 9007199254740992"
    using bound abs_sum_nonneg [of qs] by linarith
  then have exact: "double_add (stock p) (stock q) = stock p + stock q"
    using Cons.prems(2) iq by (rule double_add_safe [rotated 2])
  have 1: "findOne_barcode (store_partition ?db' storeId) b = Some ?p'"
    using Cons.prems(1) bq
    by (simp add: partition_addItem) (simp add: findOne_barcode_def find_inc_stock_first exact)
  have 2: "stock ?p' \<in> \<int>"
    using Cons.prems(2) iq by simp
  have 3: "\<bar>stock ?p'\<bar> + sum_list (map (\<lambda>q. \<bar>stock q\<bar>) qs) \<le> 9007199254740992"
    using bound by simp
  from Cons.IH [OF 1 2 rest 3]
  show ?case by (simp add: add.assoc)
qed

lemma sum_list_mset_cong:
  "mset qs' = mset qs \<Longrightarrow> sum_list (map f qs') = (sum_list (map f qs) :: real)"
proof -
  assume "mset qs' = mset qs"
  then have "mset (map f qs') = mset (map f qs)"
    by simp
  then have "sum_mset (mset (map f qs')) = sum_mset (mset (map f qs))"
    by simp
  then show ?thesis
    by (simp only: sum_mset_sum_list)
qed

subsection \<open>Interleaved calls\<close>

lemma step_keeps_increments:
  assumes i: "i < length ts"
    and tasks: "list_all (increments b d) ts"
    and ints: "stock p \<in> \<int>" "d \<in> \<int>"
    and bound: "\<bar>stock p\<bar> + of_nat (length ts) * \<bar>d\<bar> \<le> 9007199254740992"
    and rec: "findOne_barcode (store_partition db storeId) b =
      Some (p \<lparr> stock := stock p + of_nat (length (filter returned ts)) * d \<rparr>)"
    and st: "step storeId db (ts ! i) = (db', t')"
  shows "list_all (increments b d) (ts[i := t']) \<and>
     findOne_barcode (store_partition db' storeId) b =
       Some (p \<lparr> stock := stock p + of_nat (length (filter returned (ts[i := t']))) * d \<rparr>)"
proof -
  let ?k = "length (filter returned ts)"
  have ti: "increments b d (ts ! i)"
    using i tasks by (simp add: list_all_length)
  have upd: "list_all (increments b d) (ts[i := t'])" if "increments b d t'"
    using that tasks by (auto simp: list_all_iff dest: set_update_subset_insert [THEN subsetD])
  show ?thesis
  proof (cases "ts ! i")
    case (AwaitFind it)
    with st have eq: "db' = db" "t' = AwaitWrite it (addItem_find db storeId it)"
      by auto
    have "addItem_find db storeId it \<noteq> None"
      using ti rec AwaitFind by (simp add: addItem_find_def store_partition_def)
    then have ok: "increments b d t'"
      using ti AwaitFind eq by simp
    have "length (filter returned (ts[i := t'])) = ?k"
      using length_filter_update [OF i, of returned t'] AwaitFind eq by simp
    then show ?thesis
      using upd [OF ok] rec eq by simp
  next
    case (AwaitWrite it found)
    with ti obtain f where f: "found = Some f" and bd: "barcode it = b" "stock it = d"
      by auto
    from st AwaitWrite f have eq: "db' = updateOne_inc_stock db (inventory_store storeId) b d"
      "returned t'"
      using bd by (auto simp: addItem_write_def)
    have cnt: "length (filter returned (ts[i := t'])) = Suc ?k"
      using length_filter_update [OF i, of returned t'] AwaitWrite eq by simp
    have ok: "increments b d t'"
      using eq(2) by (cases t') simp_all
    have "ts ! i \<in> set ts"
      using i by (rule nth_mem)
    moreover have "\<not> returned (ts ! i)"
      using AwaitWrite by simp
    ultimately have "?k < length ts"
      by (rule length_filter_less)
    then have "real (Suc ?k) \<le> real (length ts)"
      by simp
    then have "real (Suc ?k) * \<bar>d\<bar> \<le> real (length ts) * \<bar>d\<bar>"
      by (rule mult_right_mono) simp
    moreover have "\<bar>stock p + real ?k * d + d\<bar> \<le> \<bar>stock p\<bar> + real (Suc ?k) * \<bar>d\<bar>"
    proof -
      have "stock p + real ?k * d + d = stock p + real (Suc ?k) * d"
        by (simp add: algebra_simps)
      moreover have "\<bar>stock p + real (Suc ?k) * d\<bar> \<le> \<bar>stock p\<bar> + \<bar>real (Suc ?k) * d\<bar>"
        by (rule abs_triangle_ineq)
      moreover have "\<bar>real (Suc ?k) * d\<bar> = real (Suc ?k) * \<bar>d\<bar>"
        by (simp only: abs_mult abs_of_nat)
      ultimately show ?thesis by simp
    qed
    ultimately have safe: "\<bar>stock p + real ?k * d + d\<bar> \<le> 9007199254740992"
      using bound by linarith
    have "stock p + real ?k * d \<in> \<int>"
      using ints by (simp add: Ints_mult Ints_add)
    then have exact: "double_add (stock p + real ?k * d) d = stock p + real ?k * d + d"
      using ints(2) safe by (rule double_add_safe)
    have "find (\<lambda>x. barcode x = b) (store_partition db storeId) =
        Some (p \<lparr> stock := stock p + real ?k * d \<rparr>)"
      using rec by (simp add: findOne_barcode_def)
    then have "findOne_barcode (store_partition db' storeId) b =
        Some (p \<lparr> stock := stock p + real ?k * d + d \<rparr>)"
      by (simp add: eq(1) partition_updateOne findOne_barcode_def find_inc_stock_first exact)
    moreover have "stock p + real ?k * d + d = stock p + real (Suc ?k) * d"
      by (simp add: algebra_simps)
    ultimately show ?thesis
      using upd [OF ok] by (simp only: cnt)
  next
    case (Returned br r)
    with st have eq: "db' = db" "t' = ts ! i"
      by auto
    then show ?thesis
      using tasks rec by simp
  qed
qed

lemma run_keeps_increments:
  "list_all (increments b d) ts \<Longrightarrow>
   stock p \<in> \<int> \<Longrightarrow> d \<in> \<int> \<Longrightarrow>
   \<bar>stock p\<bar> + of_nat (length ts) * \<bar>d\<bar> \<le> 9007199254740992 \<Longrightarrow>
   findOne_barcode (store_partition db storeId) b =
     Some (p \<lparr> stock := stock p + of_nat (length (filter returned ts)) * d \<rparr>) \<Longrightarrow>
   run storeId sched (db, ts) = (db', ts') \<Longrightarrow>
   findOne_barcode (store_partition db' storeId) b =
     Some (p \<lparr> stock := stock p + of_nat (length (filter returned ts')) * d \<rparr>)"
proof (induction sched arbitrary: db ts)
  case Nil
  then show ?case by simp
next
  case (Cons i sched)
  show ?case
  proof (cases "i < length ts")
    case False
    with Cons.prems(6) have "run storeId sched (db, ts) = (db', ts')"
      by simp
    from Cons.IH [OF Cons.prems(1,2,3,4,5) this] show ?thesis .
  next
    case True
    obtain db1 t1 where st: "step storeId db (ts ! i) = (db1, t1)"
      by (cases "step storeId db (ts ! i)")
    with True Cons.prems(6) have r: "run storeId sched (db1, ts[i := t1]) = (db', ts')"
      by simp
    from step_keeps_increments [OF True Cons.prems(1,2,3,4,5) st]
    have 1: "list_all (increments b d) (ts[i := t1])"
      and 2: "findOne_barcode (store_partition db1 storeId) b =
        Some (p \<lparr> stock := stock p + of_nat (length (filter returned (ts[i := t1]))) * d \<rparr>)"
      by simp_all
    have 3: "\<bar>stock p\<bar> + of_nat (length (ts[i := t1])) * \<bar>d\<bar> \<le> 9007199254740992"
      using Cons.prems(4) by simp
    from Cons.IH [OF 1 Cons.prems(2,3) 3 2 r] show ?thesis .
  qed
qed

section \<open>The claims\<close>

subsection \<open>C1: addItem inserts once, then increments\<close>



subsection \<open>C2: two calls of addItem for one barcode\<close>

text \<open>
  C2, as amended. \<open>addItem\<close> reads with \<^verbatim>\<open>findOne\<close> and then writes with a
  separate \<^verbatim>\<open>insertOne\<close> or \<^verbatim>\<open>updateOne\<close>. Once the partition holds a record
  of a barcode, a call for that barcode that has not read yet, or that has read a
  record, never inserts, whatever other calls run in between and in whatever
  order. So concurrent calls for a barcode that already has a record all
  increment, under every schedule, and create no record; and two calls for the
  same barcode that run one after the other never both insert: the second
  increments, and the number of records with the barcode is the former number, or
  one when there was none. Only calls that overlap on a barcode without a record
  can both insert.
\<close>

theorem addItem_never_inserts_once_a_record_exists:
  fixes db :: database and storeId :: string and b :: string
  shows
    "(findOne_barcode (store_partition db storeId) b \<noteq> None \<and>
      i < length ts \<and> never_inserts b (ts ! i) \<longrightarrow>
        never_inserts b (snd (run storeId sched (db, ts)) ! i) \<and>
        findOne_barcode (store_partition (fst (run storeId sched (db, ts))) storeId) b \<noteq> None) \<and>
     (findOne_barcode (store_partition db storeId) b \<noteq> None \<and>
      list_all (\<lambda>itemData. barcode itemData = b) items \<longrightarrow>
        list_all (never_inserts b) (snd (run storeId sched (db, map AwaitFind items))) \<and>
        map barcode (store_partition (fst (run storeId sched (db, map AwaitFind items))) storeId) =
          map barcode (store_partition db storeId)) \<and>
     (barcode item1 = b \<and> barcode item2 = b \<longrightarrow>
        (\<exists>b1. run storeId [0, 0, 1, 1] (db, [AwaitFind item1, AwaitFind item2]) =
           (addItems db storeId [item1, item2],
            [Returned b1 \<lparr> success = True, message = Some ''Item added successfully'' \<rparr>,
             Returned Increment \<lparr> success = True, message = Some ''Item added successfully'' \<rparr>])) \<and>
        count_list (map barcode (store_partition (addItems db storeId [item1, item2]) storeId)) b =
          max 1 (count_list (map barcode (store_partition db storeId)) b))"
proof (intro conjI impI)
  assume a: "findOne_barcode (store_partition db storeId) b \<noteq> None \<and>
      i < length ts \<and> never_inserts b (ts ! i)"
  obtain db' ts' where r: "run storeId sched (db, ts) = (db', ts')"
    by (cases "run storeId sched (db, ts)")
  from a run_never_inserts [OF _ _ _ r, of b i]
  show "never_inserts b (snd (run storeId sched (db, ts)) ! i)"
    and "findOne_barcode (store_partition (fst (run storeId sched (db, ts))) storeId) b \<noteq> None"
    by (simp_all add: r)
next
  assume a: "findOne_barcode (store_partition db storeId) b \<noteq> None \<and>
      list_all (\<lambda>itemData. barcode itemData = b) items"
  obtain db' ts' where r: "run storeId sched (db, map AwaitFind items) = (db', ts')"
    by (cases "run storeId sched (db, map AwaitFind items)")
  from a have "list_all (never_inserts b) (map AwaitFind items)"
    by (simp add: list_all_iff)
  from run_all_never_insert [OF _ this r] a
  show "list_all (never_inserts b) (snd (run storeId sched (db, map AwaitFind items)))"
    and "map barcode (store_partition (fst (run storeId sched (db, map AwaitFind items))) storeId) =
          map barcode (store_partition db storeId)"
    by (simp_all add: r)
next
  assume a: "barcode item1 = b \<and> barcode item2 = b"
  then have same: "barcode item1 = barcode item2" by simp
  show "\<exists>b1. run storeId [0, 0, 1, 1] (db, [AwaitFind item1, AwaitFind item2]) =
        (addItems db storeId [item1, item2],
         [Returned b1 \<lparr> success = True, message = Some ''Item added successfully'' \<rparr>,
          Returned Increment \<lparr> success = True, message = Some ''Item added successfully'' \<rparr>])"
    using second_call_finds [OF same, of db storeId]
    by (simp only: run_sequential if_False) blast
  let ?db1 = "fst (addItem db storeId item1)"
  have found2: "findOne_barcode (store_partition ?db1 storeId) (barcode item2) \<noteq> None"
    using second_call_finds [OF same, of db storeId]
    by (simp add: addItem_find_def store_partition_def)
  then obtain p2 where "findOne_barcode (store_partition ?db1 storeId) (barcode item2) = Some p2"
    by blast
  then have "store_partition (addItems db storeId [item1, item2]) storeId =
      inc_stock_first (barcode item2) (stock item2) (store_partition ?db1 storeId)"
    by (simp add: partition_addItem)
  then have after: "count_list (map barcode (store_partition (addItems db storeId [item1, item2]) storeId))
       b = count_list (map barcode (store_partition ?db1 storeId)) b"
    by (simp add: count_barcode_inc_stock_first)
  show "count_list (map barcode (store_partition (addItems db storeId [item1, item2]) storeId)) b =
       max 1 (count_list (map barcode (store_partition db storeId)) b)"
  proof (cases "findOne_barcode (store_partition db storeId) (barcode item1)")
    case None
    then have "store_partition ?db1 storeId =
        store_partition db storeId @ [stored (generate_oid (oid_counter db)) item1]"
      by (simp add: partition_addItem)
    then show ?thesis
      unfolding after using a findOne_barcode_None_count [OF None] by simp
  next
    case (Some p)
    then have "store_partition ?db1 storeId =
        inc_stock_first (barcode item1) (stock item1) (store_partition db storeId)"
      by (simp add: partition_addItem)
    then show ?thesis
      unfolding after using a findOne_barcode_Some_count [OF Some]
      by (simp add: count_barcode_inc_stock_first)
  qed
qed

theorem addItem_never_inserts_once_a_record_exists_witness:
  "snd (run ''7'' [0, 1, 0, 1] (fst (addItem empty_db ''7'' cola),
                                [AwaitFind restock, AwaitFind restock])) =
     [Returned Increment \<lparr> success = True, message = Some ''Item added successfully'' \<rparr>,
      Returned Increment \<lparr> success = True, message = Some ''Item added successfully'' \<rparr>] \<and>
   map barcode (store_partition
      (fst (run ''7'' [0, 1, 0, 1] (fst (addItem empty_db ''7'' cola),
                                    [AwaitFind restock, AwaitFind restock]))) ''7'') = [''1001''] \<and>
   snd (run ''7'' [0, 0, 1, 1] (empty_db, [AwaitFind cola, AwaitFind restock])) =
     [Returned Insert \<lparr> success = True, message = Some ''Item added successfully'' \<rparr>,
      Returned Increment \<lparr> success = True, message = Some ''Item added successfully'' \<rparr>] \<and>
   count_list (map barcode (store_partition (addItems empty_db ''7'' [cola, restock]) ''7''))
     ''1001'' = 1"
proof -
  let ?db = "fst (addItem empty_db ''7'' cola)"
  have present: "findOne_barcode (store_partition ?db ''7'') ''1001'' \<noteq> None"
    unfolding partition_cola by (simp add: findOne_barcode_def cola_def)
  have items: "list_all (\<lambda>itemData. barcode itemData = ''1001'') [restock, restock]"
    by (simp add: restock_def)
  have bc: "barcode cola = ''1001''" "barcode restock = ''1001''"
    by (simp_all add: cola_def restock_def)
  have first: "addItem_find empty_db ''7'' cola = None"
    by (simp add: addItem_find_def findOne_barcode_def empty_db_def)
  have ret: "snd (run ''7'' [0, 1, 0, 1] (?db, [AwaitFind restock, AwaitFind restock])) =
     [Returned (if addItem_find ?db ''7'' restock = None then Insert else Increment)
        \<lparr> success = True, message = Some ''Item added successfully'' \<rparr>,
      Returned (if addItem_find ?db ''7'' restock = None then Insert else Increment)
        \<lparr> success = True, message = Some ''Item added successfully'' \<rparr>]"
    by simp
  have bcs: "map barcode (store_partition ?db ''7'') = [''1001'']"
    unfolding partition_cola by (simp add: cola_def)
  show ?thesis
    using addItem_never_inserts_once_a_record_exists
        [of ?db "''7''" "''1001''" _ _ "[0, 1, 0, 1]" "[restock, restock]"]
      addItem_never_inserts_once_a_record_exists
        [of empty_db "''7''" "''1001''" _ _ _ _ cola restock]
      present items bc first ret bcs
    by (auto simp: run_sequential)
qed

text \<open>
  The claim as stated fails: when the barcode has no record and both calls run
  \<^verbatim>\<open>findOne\<close> before either writes, both take the insert branch, and the
  partition holds two records with the barcode.
\<close>

theorem concurrent_addItem_inserts_twice_counterexample:
  "snd (run ''7'' [0, 1, 0, 1] (empty_db, [AwaitFind cola, AwaitFind cola])) =
     [Returned Insert \<lparr> success = True, message = Some ''Item added successfully'' \<rparr>,
      Returned Insert \<lparr> success = True, message = Some ''Item added successfully'' \<rparr>] \<and>
   map barcode (store_partition
      (fst (run ''7'' [0, 1, 0, 1] (empty_db, [AwaitFind cola, AwaitFind cola]))) ''7'') =
     [''1001'', ''1001'']"
  by (simp add: addItem_find_def addItem_write_def findOne_barcode_def
      store_partition_def [symmetric] partition_insertOne cola_def)

subsection \<open>C3: getItemByBarcodeOrID routes by the shape of its input\<close>

text \<open>
  C3. For every store and input string, on either release of bson: an input that \<^verbatim>\<open>ObjectId.isValid\<close> accepts
  is looked up by identifier, every other string by barcode. Whenever the lookup
  finds no record in the store's partition the reply is
  \<^verbatim>\<open>{ success: false, message: 'Item not found' }\<close> with no product, and on
  neither path does the method throw: it always returns a reply.
\<close>

theorem getItem_routes_and_reports_not_found:
  fixes lib :: bson and db :: database and storeId :: string and s :: string
  defines "part \<equiv> store_partition db storeId"
  shows
    "(\<not> ObjectId_isValid lib s \<longrightarrow>
        getItemByBarcodeOrID lib db storeId s =
          Inr (case findOne_barcode part s of
                 None \<Rightarrow> \<lparr> success = False, message = Some ''Item not found'', product = None \<rparr>
               | Some p \<Rightarrow> \<lparr> success = True, message = Some ''Item retrieved successfully'',
                             product = Some p \<rparr>)) \<and>
     (ObjectId_isValid lib s \<longrightarrow>
        (\<exists>oid. ObjectId_new lib s = Inr oid \<and>
           getItemByBarcodeOrID lib db storeId s =
             Inr (case findOne_id part oid of
                    None \<Rightarrow> \<lparr> success = False, message = Some ''Item not found'', product = None \<rparr>
                  | Some p \<Rightarrow> \<lparr> success = True, message = Some ''Item retrieved successfully'',
                                product = Some p \<rparr>))) \<and>
     (\<not> ObjectId_isValid lib s \<and> findOne_barcode part s = None \<longrightarrow>
        getItemByBarcodeOrID lib db storeId s =
          Inr \<lparr> success = False, message = Some ''Item not found'', product = None \<rparr>) \<and>
     (ObjectId_isValid lib s \<and> (\<forall>oid. ObjectId_new lib s = Inr oid \<longrightarrow> findOne_id part oid = None) \<longrightarrow>
        getItemByBarcodeOrID lib db storeId s =
          Inr \<lparr> success = False, message = Some ''Item not found'', product = None \<rparr>) \<and>
     (\<exists>r. getItemByBarcodeOrID lib db storeId s = Inr r)"
proof (cases "ObjectId_isValid lib s")
  case False
  then show ?thesis
    by (simp add: part_def getItem_by_barcode)
next
  case True
  then obtain oid where oid: "ObjectId_new lib s = Inr oid"
    using ObjectId_new_valid by blast
  show ?thesis
    using True oid by (simp add: part_def getItem_by_id [OF True oid])
qed

theorem getItem_routes_and_reports_not_found_witness:
  "getItemByBarcodeOrID Bson_from_6 (fst (addItem empty_db ''7'' cola)) ''7'' ''2002'' =
     Inr \<lparr> success = False, message = Some ''Item not found'', product = None \<rparr> \<and>
   getItemByBarcodeOrID Bson_from_6 (fst (addItem empty_db ''7'' cola)) ''7'' ''1001'' =
     Inr \<lparr> success = True, message = Some ''Item retrieved successfully'',
           product = Some (stored (generate_oid 0) cola) \<rparr> \<and>
   getItemByBarcodeOrID Bson_from_6 (fst (addItem empty_db ''7'' cola)) ''7'' ''0000000000000000000000ff'' =
     Inr \<lparr> success = False, message = Some ''Item not found'', product = None \<rparr>"
proof -
  let ?db = "fst (addItem empty_db ''7'' cola)"
  have v1: "\<not> ObjectId_isValid Bson_from_6 ''2002''" "\<not> ObjectId_isValid Bson_from_6 ''1001''"
    by (simp_all add: ObjectId_isValid_def)
  have v2: "ObjectId_isValid Bson_from_6 ''0000000000000000000000ff''"
    by (simp add: ObjectId_isValid_def is_hex_def)
  have n1: "findOne_barcode (store_partition ?db ''7'') ''2002'' = None"
    unfolding partition_cola by (simp add: findOne_barcode_def cola_def)
  have n2: "findOne_barcode (store_partition ?db ''7'') ''1001'' = Some (stored (generate_oid 0) cola)"
    unfolding partition_cola by (simp add: findOne_barcode_def cola_def)
  have n3: "\<forall>oid. ObjectId_new Bson_from_6 ''0000000000000000000000ff'' = Inr oid \<longrightarrow>
      findOne_id (store_partition ?db ''7'') oid = None"
    unfolding partition_cola
    by (simp add: ObjectId_new_def is_hex_def hex_value_def findOne_id_def generate_oid_0)
  show ?thesis
    using getItem_routes_and_reports_not_found [of Bson_from_6 "''2002''" ?db "''7''"]
      getItem_routes_and_reports_not_found [of Bson_from_6 "''1001''" ?db "''7''"]
      getItem_routes_and_reports_not_found [of Bson_from_6 "''0000000000000000000000ff''" ?db "''7''"]
      v1 v2 n1 n2 n3
    by simp
qed

subsection \<open>C4: increments commute on integer stocks\<close>

text \<open>
  C4, as amended. Let the store's partition hold a record of barcode \<open>b\<close> whose
  stock \<open>s\<close> is an integer. Calls of \<open>addItem\<close> for \<open>b\<close> with integer stocks, made
  one after the other in any order, leave the record with stock \<open>s\<close> plus the sum
  of their stocks, provided \<open>\<bar>s\<bar>\<close> plus the sum of their absolute values is at
  most \<open>2 ^ 53\<close> (9007199254740992). \<open>N\<close> calls with an integer stock \<open>d\<close> leave it
  with \<open>s + N * d\<close> when \<open>\<bar>s\<bar> + N * \<bar>d\<bar>\<close> is at most \<open>2 ^ 53\<close>, and so do \<open>N\<close>
  concurrent calls under every schedule that lets them all return.
\<close>

theorem addItem_integer_increments_commute:
  fixes db :: database and storeId :: string and b :: string and p :: InventoryData
  assumes present: "findOne_barcode (store_partition db storeId) b = Some p"
    and base: "stock p \<in> \<int>"
  shows
    "(list_all (\<lambda>q. barcode q = b \<and> stock q \<in> \<int>) qs \<and>
      \<bar>stock p\<bar> + sum_list (map (\<lambda>q. \<bar>stock q\<bar>) qs) \<le> 9007199254740992 \<and>
      mset qs' = mset qs \<longrightarrow>
        findOne_barcode (store_partition (addItems db storeId qs') storeId) b =
          Some (p \<lparr> stock := stock p + sum_list (map stock qs) \<rparr>)) \<and>
     (barcode q = b \<and> stock q \<in> \<int> \<and>
      \<bar>stock p\<bar> + of_nat N * \<bar>stock q\<bar> \<le> 9007199254740992 \<longrightarrow>
        findOne_barcode (store_partition (addItems db storeId (replicate N q)) storeId) b =
          Some (p \<lparr> stock := stock p + of_nat N * stock q \<rparr>)) \<and>
     (barcode q = b \<and> stock q \<in> \<int> \<and>
      \<bar>stock p\<bar> + of_nat N * \<bar>stock q\<bar> \<le> 9007199254740992 \<and>
      list_all returned (snd (run storeId sched (db, replicate N (AwaitFind q)))) \<longrightarrow>
        findOne_barcode
          (store_partition (fst (run storeId sched (db, replicate N (AwaitFind q)))) storeId) b =
          Some (p \<lparr> stock := stock p + of_nat N * stock q \<rparr>))"
proof (intro conjI impI)
  assume a: "list_all (\<lambda>q. barcode q = b \<and> stock q \<in> \<int>) qs \<and>
      \<bar>stock p\<bar> + sum_list (map (\<lambda>q. \<bar>stock q\<bar>) qs) \<le> 9007199254740992 \<and>
      mset qs' = mset qs"
  then have "set qs' = set qs"
    by (auto dest: mset_eq_setD)
  with a have 1: "list_all (\<lambda>q. barcode q = b \<and> stock q \<in> \<int>) qs'"
    by (simp add: list_all_iff)
  have 2: "\<bar>stock p\<bar> + sum_list (map (\<lambda>q. \<bar>stock q\<bar>) qs') \<le> 9007199254740992"
    using a sum_list_mset_cong [of qs' qs "\<lambda>q. \<bar>stock q\<bar>"] by simp
  from addItems_increments [OF present base 1 2] sum_list_mset_cong [of qs' qs stock] a
  show "findOne_barcode (store_partition (addItems db storeId qs') storeId) b =
          Some (p \<lparr> stock := stock p + sum_list (map stock qs) \<rparr>)"
    by simp
next
  assume a: "barcode q = b \<and> stock q \<in> \<int> \<and>
      \<bar>stock p\<bar> + of_nat N * \<bar>stock q\<bar> \<le> 9007199254740992"
  then have 1: "list_all (\<lambda>q. barcode q = b \<and> stock q \<in> \<int>) (replicate N q)"
    by (simp add: list_all_iff)
  have 2: "\<bar>stock p\<bar> + sum_list (map (\<lambda>q. \<bar>stock q\<bar>) (replicate N q)) \<le> 9007199254740992"
    using a by (simp add: sum_list_replicate)
  from addItems_increments [OF present base 1 2]
  show "findOne_barcode (store_partition (addItems db storeId (replicate N q)) storeId) b =
          Some (p \<lparr> stock := stock p + of_nat N * stock q \<rparr>)"
    by (simp add: sum_list_replicate)
next
  let ?ts = "replicate N (AwaitFind q)"
  assume a: "barcode q = b \<and> stock q \<in> \<int> \<and>
      \<bar>stock p\<bar> + of_nat N * \<bar>stock q\<bar> \<le> 9007199254740992 \<and>
      list_all returned (snd (run storeId sched (db, ?ts)))"
  obtain db' ts' where r: "run storeId sched (db, ?ts) = (db', ts')"
    by (cases "run storeId sched (db, ?ts)")
  have tasks: "list_all (increments b (stock q)) ?ts"
    using a by (simp add: list_all_iff)
  have bound: "\<bar>stock p\<bar> + of_nat (length ?ts) * \<bar>stock q\<bar> \<le> 9007199254740992"
    using a by simp
  have d: "stock q \<in> \<int>" using a by simp
  have start: "findOne_barcode (store_partition db storeId) b =
     Some (p \<lparr> stock := stock p + of_nat (length (filter returned ?ts)) * stock q \<rparr>)"
    using present by simp
  have "length ts' = N"
    using length_run [of storeId sched db ?ts] r by simp
  moreover have "filter returned ts' = ts'"
    using a r by (simp add: list_all_iff)
  ultimately have "length (filter returned ts') = N"
    by simp
  with run_keeps_increments [OF tasks base d bound start r]
  show "findOne_barcode (store_partition (fst (run storeId sched (db, ?ts))) storeId) b =
          Some (p \<lparr> stock := stock p + of_nat N * stock q \<rparr>)"
    using r by simp
qed

theorem addItem_integer_increments_commute_witness:
  "findOne_barcode (store_partition (addItems (fst (addItem empty_db ''7'' cola)) ''7''
       [restock, restock, restock]) ''7'') ''1001'' =
     Some (stored (generate_oid 0) cola \<lparr> stock := 25 \<rparr>) \<and>
   findOne_barcode (store_partition
       (fst (run ''7'' [1, 0, 1, 0] (fst (addItem empty_db ''7'' cola),
                                    [AwaitFind restock, AwaitFind restock]))) ''7'') ''1001'' =
     Some (stored (generate_oid 0) cola \<lparr> stock := 20 \<rparr>)"
proof -
  let ?db = "fst (addItem empty_db ''7'' cola)"
  have present: "findOne_barcode (store_partition ?db ''7'') ''1001'' =
      Some (stored (generate_oid 0) cola)"
    unfolding partition_cola by (simp add: findOne_barcode_def cola_def)
  have base: "stock (stored (generate_oid 0) cola) \<in> \<int>"
    by (simp add: cola_def)
  have b: "barcode restock = ''1001''" and d: "stock restock = 5"
    and s: "stock (stored (generate_oid 0) cola) = 10"
    by (simp_all add: restock_def cola_def)
  have three: "replicate 3 restock = [restock, restock, restock]"
    and two: "replicate 2 (AwaitFind restock) = [AwaitFind restock, AwaitFind restock]"
    by (simp_all add: numeral_3_eq_3 numeral_2_eq_2)
  have fin: "list_all returned (snd (run ''7'' [1, 0, 1, 0]
      (?db, [AwaitFind restock, AwaitFind restock])))"
    by simp
  show ?thesis
    using addItem_integer_increments_commute [OF present base, where q = restock and N = 3]
      addItem_integer_increments_commute
        [OF present base, where q = restock and N = 2 and sched = "[1, 0, 1, 0]"]
      b d s three two fin
    by simp
qed

text \<open>
  The claim as stated fails, since the stock is a double. A record with stock
  9007199254740991 that is incremented twice by 1 ends with 9007199254740992, not
  9007199254740993; and the order matters: incremented by 1, 1 and -1 it ends
  with 9007199254740991, incremented by 1, -1 and 1 with 9007199254740992.
\<close>

theorem addItem_increments_round_counterexample:
  "map stock (store_partition (addItems (fst (addItem empty_db ''7'' bulk)) ''7''
       [one_more, one_more]) ''7'') = [9007199254740992] \<and>
   stock bulk + 2 * stock one_more = 9007199254740993 \<and>
   map stock (store_partition (addItems (fst (addItem empty_db ''7'' bulk)) ''7''
       [one_more, one_more, one_less]) ''7'') = [9007199254740991] \<and>
   map stock (store_partition (addItems (fst (addItem empty_db ''7'' bulk)) ''7''
       [one_more, one_less, one_more]) ''7'') = [9007199254740992]"
  by (simp add: partition_addItem findOne_barcode_def bulk_def one_more_def one_less_def
      double_add_safe double_add_2_53_one)

subsection \<open>C5: the catalog and the first record of a barcode\<close>

text \<open>
  C5, as amended. For every call of \<open>addItem\<close> where the store has no local record
  for the barcode, whether or not the barcode exists in the shared catalog, the
  record created is the payload under a fresh identifier (name and description are
  the payload's), the reply is a success, and a later call for the barcode
  increments that record. \<open>addItem\<close> neither reads nor writes the catalog: two
  states of the services with the same inventory database give the same inventory
  database and the same reply, whatever their catalogs hold.
\<close>

theorem addItem_creates_record_from_payload_only:
  fixes sys sys' :: services and storeId :: string and itemData later :: Inventory
  defines "before \<equiv> store_partition (inventory_db sys) storeId"
    and "after \<equiv>
      store_partition (inventory_db (fst (services_addItem sys storeId itemData))) storeId"
    and "after_later \<equiv>
      store_partition (inventory_db (fst (services_addItem
        (fst (services_addItem sys storeId itemData)) storeId later))) storeId"
  shows
    "(inventory_db sys' = inventory_db sys \<longrightarrow>
        inventory_db (fst (services_addItem sys' storeId itemData)) =
          inventory_db (fst (services_addItem sys storeId itemData)) \<and>
        snd (services_addItem sys' storeId itemData) =
          snd (services_addItem sys storeId itemData)) \<and>
     products_db (fst (services_addItem sys storeId itemData)) = products_db sys \<and>
     (findOne_barcode before (barcode itemData) = None \<longrightarrow>
        after = before @ [stored (generate_oid (oid_counter (inventory_db sys))) itemData] \<and>
        Inventory.truncate (last after) = itemData \<and>
        snd (services_addItem sys storeId itemData) =
          \<lparr> success = True, message = Some ''Item added successfully'' \<rparr> \<and>
        (barcode later = barcode itemData \<longrightarrow>
           length after_later = length after \<and>
           findOne_barcode after_later (barcode itemData) =
             Some (stored (generate_oid (oid_counter (inventory_db sys))) itemData
                     \<lparr> stock := double_add (stock itemData) (stock later) \<rparr>)))"
proof (intro conjI impI)
  assume "inventory_db sys' = inventory_db sys"
  then show "inventory_db (fst (services_addItem sys' storeId itemData)) =
          inventory_db (fst (services_addItem sys storeId itemData))"
    and "snd (services_addItem sys' storeId itemData) =
          snd (services_addItem sys storeId itemData)"
    by (simp_all add: services_addItem_def split: prod.split)
next
  show "products_db (fst (services_addItem sys storeId itemData)) = products_db sys"
    by (simp add: services_addItem_def split: prod.split)
next
  have inv: "inventory_db (fst (services_addItem s storeId it)) =
      fst (addItem (inventory_db s) storeId it)" for s it
    by (simp add: services_addItem_def split: prod.split)
  assume absent: "findOne_barcode before (barcode itemData) = None"
  then show ins: "after =
      before @ [stored (generate_oid (oid_counter (inventory_db sys))) itemData]"
    by (simp add: before_def after_def inv partition_addItem)
  from ins show "Inventory.truncate (last after) = itemData"
    by (simp add: truncate_stored)
  show "snd (services_addItem sys storeId itemData) =
          \<lparr> success = True, message = Some ''Item added successfully'' \<rparr>"
    by (simp add: services_addItem_def addItem_def)
  assume same: "barcode later = barcode itemData"
  have found: "findOne_barcode after (barcode later) =
      Some (stored (generate_oid (oid_counter (inventory_db sys))) itemData)"
    using absent unfolding ins same
    by (simp add: findOne_barcode_def find_append_split)
  have later: "after_later = inc_stock_first (barcode later) (stock later) after"
    using found by (simp add: after_later_def after_def inv partition_addItem)
  show "length after_later = length after"
    by (simp add: later length_inc_stock_first)
  show "findOne_barcode after_later (barcode itemData) =
      Some (stored (generate_oid (oid_counter (inventory_db sys))) itemData
              \<lparr> stock := double_add (stock itemData) (stock later) \<rparr>)"
    using found unfolding later same [symmetric]
    by (simp add: findOne_barcode_def find_inc_stock_first)
qed

theorem addItem_creates_record_from_payload_only_witness:
  "catalog_lookup [catalog_cola] (barcode restock) = Some (''Cola'', ''Soda'') \<and>
   inventory_db (fst (services_addItem \<lparr> inventory_db = empty_db, products_db = [] \<rparr> ''7'' restock)) =
     inventory_db (fst (services_addItem
       \<lparr> inventory_db = empty_db, products_db = [catalog_cola] \<rparr> ''7'' restock)) \<and>
   map name (store_partition (inventory_db (fst (services_addItem
       \<lparr> inventory_db = empty_db, products_db = [catalog_cola] \<rparr> ''7'' restock))) ''7'') =
     [''Pepsi''] \<and>
   map stock (store_partition (inventory_db (fst (services_addItem (fst (services_addItem
       \<lparr> inventory_db = empty_db, products_db = [catalog_cola] \<rparr> ''7'' restock)) ''7'' cola)))
       ''7'') = [15]"
proof -
  let ?sys = "\<lparr> inventory_db = empty_db, products_db = [catalog_cola] \<rparr>"
  let ?sys' = "\<lparr> inventory_db = empty_db, products_db = [] \<rparr>"
  have hit: "catalog_lookup [catalog_cola] (barcode restock) = Some (''Cola'', ''Soda'')"
    by (simp add: catalog_lookup_def catalog_cola_def restock_def)
  have same_db: "inventory_db ?sys' = inventory_db ?sys"
    by simp
  have absent: "findOne_barcode (store_partition (inventory_db ?sys) ''7'') (barcode restock) = None"
    by (simp add: findOne_barcode_def)
  have same: "barcode cola = barcode restock"
    by (simp add: cola_def restock_def)
  have sum: "double_add (stock restock) (stock cola) = 15" and n: "name restock = ''Pepsi''"
    by (simp_all add: cola_def restock_def double_add_safe)
  from addItem_creates_record_from_payload_only [of ?sys' ?sys "''7''" restock cola]
    same_db absent same
  have 1: "inventory_db (fst (services_addItem ?sys' ''7'' restock)) =
      inventory_db (fst (services_addItem ?sys ''7'' restock))"
    and 2: "store_partition (inventory_db (fst (services_addItem ?sys ''7'' restock))) ''7'' =
      [stored (generate_oid (oid_counter empty_db)) restock]"
    and 3: "length (store_partition (inventory_db (fst (services_addItem
        (fst (services_addItem ?sys ''7'' restock)) ''7'' cola))) ''7'') =
      length (store_partition (inventory_db (fst (services_addItem ?sys ''7'' restock))) ''7'')"
    and 4: "findOne_barcode (store_partition (inventory_db (fst (services_addItem
        (fst (services_addItem ?sys ''7'' restock)) ''7'' cola))) ''7'') (barcode restock) =
      Some (stored (generate_oid (oid_counter empty_db)) restock
              \<lparr> stock := double_add (stock restock) (stock cola) \<rparr>)"
    by simp_all
  from 3 2 obtain d where one: "store_partition (inventory_db (fst (services_addItem
        (fst (services_addItem ?sys ''7'' restock)) ''7'' cola))) ''7'' = [d]"
    by (auto simp: length_Suc_conv)
  with 4 have "stock d = 15"
    using sum by (auto simp: findOne_barcode_def split: if_splits)
  with one hit 1 2 n show ?thesis
    by simp
qed

text \<open>
  The claim as stated fails: the catalog knows barcode 1001 as Cola (Soda), the
  store has no record of it, and the record \<open>addItem\<close> creates from a payload
  named Pepsi (Other) is named Pepsi (Other).
\<close>

theorem addItem_not_seeded_from_catalog_counterexample:
  "catalog_lookup [catalog_cola] (barcode restock) = Some (''Cola'', ''Soda'') \<and>
   findOne_barcode (store_partition empty_db ''7'') (barcode restock) = None \<and>
   map name (store_partition (fst (addItem empty_db ''7'' restock)) ''7'') = [''Pepsi''] \<and>
   map description (store_partition (fst (addItem empty_db ''7'' restock)) ''7'') = [''Other'']"
  by (simp add: catalog_lookup_def catalog_cola_def restock_def partition_addItem
      findOne_barcode_def)

subsection \<open>C6: the timestamps of a record\<close>

text \<open>
  C6. The claim is that \<^verbatim>\<open>created_at\<close> is set once, at the first insert, and
  that \<^verbatim>\<open>updated_at\<close> changes whenever the stock changes, so that an increment
  on an existing barcode refreshes \<^verbatim>\<open>updated_at\<close> and leaves every other field
  but the stock as it was. The increment is \<^verbatim>\<open>{ $inc: { stock } }\<close> and nothing
  else: an item instantiated at time 100 and added, then added again with an item
  instantiated at time 200, has stock 15, \<^verbatim>\<open>created_at\<close> 100 and still
  \<^verbatim>\<open>updated_at\<close> 100.
\<close>

theorem addItem_increment_keeps_updated_at:
  "map stock (store_partition
      (fst (addItem (fst (addItem empty_db ''7'' (instantiateItem 100 100 cola))) ''7''
              (instantiateItem 200 200 restock))) ''7'') = [15] \<and>
   map created_at (store_partition
      (fst (addItem (fst (addItem empty_db ''7'' (instantiateItem 100 100 cola))) ''7''
              (instantiateItem 200 200 restock))) ''7'') = [100] \<and>
   map updated_at (store_partition
      (fst (addItem (fst (addItem empty_db ''7'' (instantiateItem 100 100 cola))) ''7''
              (instantiateItem 200 200 restock))) ''7'') = [100]"
  by (simp add: partition_addItem findOne_barcode_def instantiateItem_def cola_def restock_def
      stored_def double_add_safe)

subsection \<open>C7: validateItemData\<close>

text \<open>
  C7. A payload whose barcode is a non-empty string with a character that is not
  a digit (\<^verbatim>\<open>"12a4"\<close>) is rejected with the message
  \<^verbatim>\<open>'barcode' must be a string of numbers\<close>, whatever else is wrong with it; the
  payload with barcode \<^verbatim>\<open>"1234"\<close>, a name, a price and a stock is accepted; a
  payload without \<^verbatim>\<open>name\<close> is rejected, with \<^verbatim>\<open>"name" is required\<close> when its
  barcode is fine; a payload with empty \<^verbatim>\<open>description\<close> and \<^verbatim>\<open>supplier\<close> is
  accepted. The reply is always a value: a success without message when the schema
  reports no violation, and otherwise a failure carrying the first violation the
  schema reports.
\<close>

theorem validateItemData_accepts_and_rejects:
  "(get_key kvs ''barcode'' = JString s \<and> s \<noteq> [] \<and> \<not> digits_only s \<longrightarrow>
      validateItemData (JObject kvs) =
        \<lparr> success = False,
          message = Some ([CHR 0x27] @ ''barcode'' @ [CHR 0x27] @ '' must be a string of numbers'') \<rparr>) \<and>
   validateItemData
     (JObject [(''barcode'', JString ''1234''), (''name'', JString ''Cola''),
               (''price'', JNumber (3 / 2)), (''stock'', JNumber 10)]) =
     \<lparr> success = True, message = None \<rparr> \<and>
   (get_key kvs ''name'' = JUndefined \<longrightarrow>
      \<not> success (validateItemData (JObject kvs)) \<and>
      message (validateItemData (JObject kvs)) \<noteq> None) \<and>
   (get_key kvs ''barcode'' = JString b \<and> digits_only b \<and> get_key kvs ''name'' = JUndefined \<longrightarrow>
      validateItemData (JObject kvs) =
        \<lparr> success = False,
          message = Some ([CHR 0x22] @ ''name'' @ [CHR 0x22] @ '' is required'') \<rparr>) \<and>
   validateItemData
     (JObject [(''barcode'', JString ''1234''), (''name'', JString ''Cola''),
               (''description'', JString []), (''price'', JNumber (3 / 2)),
               (''stock'', JNumber 10), (''supplier'', JString [])]) =
     \<lparr> success = True, message = None \<rparr> \<and>
   (validate itemData_schema [] v = None \<longrightarrow>
      validateItemData v = \<lparr> success = True, message = None \<rparr>) \<and>
   (\<forall>m. validate itemData_schema [] v = Some m \<longrightarrow>
      validateItemData v = \<lparr> success = False, message = Some m \<rparr>)"
proof (intro conjI impI allI)
  assume "get_key kvs ''barcode'' = JString s \<and> s \<noteq> [] \<and> \<not> digits_only s"
  then show "validateItemData (JObject kvs) =
        \<lparr> success = False,
          message = Some ([CHR 0x27] @ ''barcode'' @ [CHR 0x27] @ '' must be a string of numbers'') \<rparr>"
    using bad_barcode_rejected [of kvs s] by (simp add: barcode_pattern_message_def)
next
  show "validateItemData
     (JObject [(''barcode'', JString ''1234''), (''name'', JString ''Cola''),
               (''price'', JNumber (3 / 2)), (''stock'', JNumber 10)]) =
     \<lparr> success = True, message = None \<rparr>"
    by (simp add: validateItemData_object eval_defs)
next
  assume "get_key kvs ''name'' = JUndefined"
  then show "\<not> success (validateItemData (JObject kvs))"
    and "message (validateItemData (JObject kvs)) \<noteq> None"
    using missing_name_rejected [of kvs] by simp_all
next
  assume "get_key kvs ''barcode'' = JString b \<and> digits_only b \<and> get_key kvs ''name'' = JUndefined"
  then show "validateItemData (JObject kvs) =
        \<lparr> success = False,
          message = Some ([CHR 0x22] @ ''name'' @ [CHR 0x22] @ '' is required'') \<rparr>"
    using missing_name_message [of kvs b] by (simp add: label_def)
next
  show "validateItemData
     (JObject [(''barcode'', JString ''1234''), (''name'', JString ''Cola''),
               (''description'', JString []), (''price'', JNumber (3 / 2)),
               (''stock'', JNumber 10), (''supplier'', JString [])]) =
     \<lparr> success = True, message = None \<rparr>"
    by (simp add: validateItemData_object eval_defs)
next
  assume "validate itemData_schema [] v = None"
  then show "validateItemData v = \<lparr> success = True, message = None \<rparr>"
    by (simp add: validateItemData_def)
next
  fix m assume "validate itemData_schema [] v = Some m"
  then show "validateItemData v = \<lparr> success = False, message = Some m \<rparr>"
    by (simp add: validateItemData_def)
qed

theorem validateItemData_accepts_and_rejects_witness:
  "validateItemData (JObject [(''barcode'', JString ''12a4'')]) =
     \<lparr> success = False,
       message = Some ([CHR 0x27] @ ''barcode'' @ [CHR 0x27] @ '' must be a string of numbers'') \<rparr> \<and>
   validateItemData (JObject [(''barcode'', JString ''1234''), (''price'', JNumber (3 / 2)),
                              (''stock'', JNumber 10)]) =
     \<lparr> success = False,
       message = Some ([CHR 0x22] @ ''name'' @ [CHR 0x22] @ '' is required'') \<rparr>"
proof -
  have bad: "get_key [(''barcode'', JString ''12a4'')] ''barcode'' = JString ''12a4'' \<and>
      ''12a4'' \<noteq> [] \<and> \<not> digits_only ''12a4''"
    by (simp add: get_key_def digits_only_def is_digit_def)
  have good: "get_key [(''barcode'', JString ''1234''), (''price'', JNumber (3 / 2)),
        (''stock'', JNumber 10)] ''barcode'' = JString ''1234'' \<and>
      digits_only ''1234'' \<and>
      get_key [(''barcode'', JString ''1234''), (''price'', JNumber (3 / 2)),
        (''stock'', JNumber 10)] ''name'' = JUndefined"
    by (simp add: get_key_def digits_only_def is_digit_def)
  show ?thesis
    using validateItemData_accepts_and_rejects
        [of "[(''barcode'', JString ''12a4'')]" "''12a4''"] bad
      validateItemData_accepts_and_rejects
        [of "[(''barcode'', JString ''1234''), (''price'', JNumber (3 / 2)),
              (''stock'', JNumber 10)]" _ "''1234''"] good
    by simp
qed

subsection \<open>C8: variants that carry a price and a stock\<close>

text \<open>
  C8. The claim is that a payload whose variants are objects with at least a name
  passes validation, a variant with name, price and stock (the shape of
  \<^verbatim>\<open>class Variant\<close>) in particular. The item schema of \<^verbatim>\<open>variants\<close> is
  \<^verbatim>\<open>Joi.object({ name: Joi.string().required() })\<close>, and a joi object schema
  refuses keys it does not list: a variant with only a name passes, and the same
  payload with a variant that also has a price and a stock is rejected with
  \<^verbatim>\<open>"variants[0].price" is not allowed\<close>.
\<close>

theorem validateItemData_rejects_variant_with_price_and_stock:
  "validateItemData
     (JObject [(''barcode'', JString ''1234''), (''name'', JString ''Cola''),
               (''price'', JNumber (3 / 2)), (''stock'', JNumber 10),
               (''variants'', JArray [JObject [(''name'', JString ''Small'')]])]) =
     \<lparr> success = True, message = None \<rparr> \<and>
   validateItemData
     (JObject [(''barcode'', JString ''1234''), (''name'', JString ''Cola''),
               (''price'', JNumber (3 / 2)), (''stock'', JNumber 10),
               (''variants'',
                  JArray [JObject [(''name'', JString ''Small''), (''price'', JNumber 1),
                                   (''stock'', JNumber 3)]])]) =
     \<lparr> success = False,
       message = Some ([CHR 0x22] @ ''variants[0].price'' @ [CHR 0x22] @ '' is not allowed'') \<rparr>"
  by (simp add: validateItemData_object eval_defs show_nat_0 del: show_nat.simps)

subsection \<open>C9: getInventory\<close>

text \<open>
  C9. For every store identifier \<open>getInventory\<close> succeeds and returns all the
  documents of the store's partition. On an empty or never-touched partition the
  reply is a success with an empty list. The list is in insertion order: after
  items with new, pairwise different barcodes have been added one after the other,
  it is the former list followed by these items in the order they were added
  (\<open>Inventory.truncate\<close> is a document without its \<^verbatim>\<open>_id\<close>).
\<close>

theorem getInventory_returns_partition_in_insertion_order:
  "success (getInventory db storeId) \<and>
   message (getInventory db storeId) = Some ''Items retrieved successfully'' \<and>
   products (getInventory db storeId) = store_partition db storeId \<and>
   getInventory empty_db storeId =
     \<lparr> success = True, message = Some ''Items retrieved successfully'', products = [] \<rparr> \<and>
   (store_partition db storeId = [] \<longrightarrow>
      getInventory db storeId =
        \<lparr> success = True, message = Some ''Items retrieved successfully'', products = [] \<rparr>) \<and>
   (distinct (map barcode items) \<and>
    list_all (\<lambda>it. findOne_barcode (store_partition db storeId) (barcode it) = None) items \<longrightarrow>
      map Inventory.truncate (products (getInventory (addItems db storeId items) storeId)) =
        map Inventory.truncate (products (getInventory db storeId)) @ items)"
proof -
  have prod: "products (getInventory d storeId) = store_partition d storeId" for d
    by (simp add: getInventory_def store_partition_def)
  have "getInventory empty_db storeId =
     \<lparr> success = True, message = Some ''Items retrieved successfully'', products = [] \<rparr>"
    by (simp add: getInventory_def empty_db_def)
  moreover have "store_partition db storeId = [] \<longrightarrow>
      getInventory db storeId =
        \<lparr> success = True, message = Some ''Items retrieved successfully'', products = [] \<rparr>"
    by (simp add: getInventory_def store_partition_def)
  moreover have "success (getInventory db storeId)"
    "message (getInventory db storeId) = Some ''Items retrieved successfully''"
    by (simp_all add: getInventory_def)
  ultimately show ?thesis
    using addItems_new_barcodes [of items db storeId] by (simp add: prod)
qed

theorem getInventory_returns_partition_in_insertion_order_witness:
  "map Inventory.truncate (products (getInventory (addItems empty_db ''7'' [cola, upc_item]) ''7''))
     = [cola, upc_item] \<and>
   getInventory empty_db ''8'' =
     \<lparr> success = True, message = Some ''Items retrieved successfully'', products = [] \<rparr>"
proof -
  have d: "distinct (map barcode [cola, upc_item])"
    by (simp add: cola_def upc_item_def)
  have n: "list_all (\<lambda>it. findOne_barcode (store_partition empty_db ''7'') (barcode it) = None)
      [cola, upc_item]"
    by (simp add: findOne_barcode_def)
  have e: "products (getInventory empty_db ''7'') = []"
    by (simp add: getInventory_def empty_db_def)
  show ?thesis
    using getInventory_returns_partition_in_insertion_order [of empty_db "''7''" "[cola, upc_item]"]
      getInventory_returns_partition_in_insertion_order [of empty_db "''8''" "[]"] d n e
    by simp
qed

subsection \<open>C10: a barcode as long as an identifier\<close>

text \<open>
  C10, as amended. Every release of bson takes a string of 24 hex characters for
  an identifier, so a barcode of 24 digits is only looked up by identifier: the
  reply of \<open>getItemByBarcodeOrID\<close> is the one of the identifier lookup, and it is
  \<^verbatim>\<open>Item not found\<close> when no document has that identifier, whatever barcodes the
  documents carry. A string of 12 characters is taken for an identifier by the
  releases before 6 only: there a barcode of 12 characters is looked up by
  identifier alone, and from release 6 on it is looked up by barcode.
\<close>

theorem getItem_barcode_of_identifier_length:
  fixes lib :: bson and db :: database and storeId :: string and b :: string
  defines "part \<equiv> store_partition db storeId"
  shows
    "(digits_only b \<and> length b = 24 \<longrightarrow>
        ObjectId_isValid lib b \<and>
        (\<exists>oid. ObjectId_new lib b = Inr oid \<and>
           getItemByBarcodeOrID lib db storeId b =
             Inr (case findOne_id part oid of
                    None \<Rightarrow> \<lparr> success = False, message = Some ''Item not found'', product = None \<rparr>
                  | Some p \<Rightarrow> \<lparr> success = True, message = Some ''Item retrieved successfully'',
                                product = Some p \<rparr>))) \<and>
     (length b = 12 \<longrightarrow>
        ObjectId_isValid Bson_before_6 b \<and>
        (\<exists>oid. ObjectId_new Bson_before_6 b = Inr oid \<and>
           getItemByBarcodeOrID Bson_before_6 db storeId b =
             Inr (case findOne_id part oid of
                    None \<Rightarrow> \<lparr> success = False, message = Some ''Item not found'', product = None \<rparr>
                  | Some p \<Rightarrow> \<lparr> success = True, message = Some ''Item retrieved successfully'',
                                product = Some p \<rparr>)) \<and>
        \<not> ObjectId_isValid Bson_from_6 b \<and>
        getItemByBarcodeOrID Bson_from_6 db storeId b =
          Inr (case findOne_barcode part b of
                 None \<Rightarrow> \<lparr> success = False, message = Some ''Item not found'', product = None \<rparr>
               | Some p \<Rightarrow> \<lparr> success = True, message = Some ''Item retrieved successfully'',
                             product = Some p \<rparr>))"
proof (intro conjI impI)
  assume a: "digits_only b \<and> length b = 24"
  then show valid: "ObjectId_isValid lib b"
    using digits_only_hex [of b] by (simp add: ObjectId_isValid_def)
  then obtain oid where oid: "ObjectId_new lib b = Inr oid"
    using ObjectId_new_valid by blast
  then show "\<exists>oid. ObjectId_new lib b = Inr oid \<and>
           getItemByBarcodeOrID lib db storeId b =
             Inr (case findOne_id part oid of
                    None \<Rightarrow> \<lparr> success = False, message = Some ''Item not found'', product = None \<rparr>
                  | Some p \<Rightarrow> \<lparr> success = True, message = Some ''Item retrieved successfully'',
                                product = Some p \<rparr>)"
    by (simp add: part_def getItem_by_id [OF valid oid])
next
  assume a: "length b = 12"
  then show valid: "ObjectId_isValid Bson_before_6 b"
    by (simp add: ObjectId_isValid_def)
  then obtain oid where oid: "ObjectId_new Bson_before_6 b = Inr oid"
    using ObjectId_new_valid by blast
  then show "\<exists>oid. ObjectId_new Bson_before_6 b = Inr oid \<and>
           getItemByBarcodeOrID Bson_before_6 db storeId b =
             Inr (case findOne_id part oid of
                    None \<Rightarrow> \<lparr> success = False, message = Some ''Item not found'', product = None \<rparr>
                  | Some p \<Rightarrow> \<lparr> success = True, message = Some ''Item retrieved successfully'',
                                product = Some p \<rparr>)"
    by (simp add: part_def getItem_by_id [OF valid oid])
  from a show invalid: "\<not> ObjectId_isValid Bson_from_6 b"
    by (simp add: ObjectId_isValid_def)
  then show "getItemByBarcodeOrID Bson_from_6 db storeId b =
          Inr (case findOne_barcode part b of
                 None \<Rightarrow> \<lparr> success = False, message = Some ''Item not found'', product = None \<rparr>
               | Some p \<Rightarrow> \<lparr> success = True, message = Some ''Item retrieved successfully'',
                             product = Some p \<rparr>)"
    by (simp add: part_def getItem_by_barcode)
qed

theorem getItem_barcode_of_identifier_length_witness:
  "findOne_barcode (store_partition (fst (addItem empty_db ''7'' long_item)) ''7'')
     ''123456789012345678901234'' = Some (stored (generate_oid 0) long_item) \<and>
   getItemByBarcodeOrID Bson_from_6 (fst (addItem empty_db ''7'' long_item)) ''7''
     ''123456789012345678901234'' =
     Inr \<lparr> success = False, message = Some ''Item not found'', product = None \<rparr> \<and>
   getItemByBarcodeOrID Bson_before_6 (fst (addItem empty_db ''7'' long_item)) ''7''
     ''123456789012345678901234'' =
     Inr \<lparr> success = False, message = Some ''Item not found'', product = None \<rparr> \<and>
   getItemByBarcodeOrID Bson_before_6 (fst (addItem empty_db ''7'' upc_item)) ''7''
     ''036000291452'' =
     Inr \<lparr> success = False, message = Some ''Item not found'', product = None \<rparr>"
proof -
  let ?db = "fst (addItem empty_db ''7'' long_item)"
  let ?db12 = "fst (addItem empty_db ''7'' upc_item)"
  have d: "digits_only ''123456789012345678901234'' \<and> length ''123456789012345678901234'' = 24"
    by (simp add: digits_only_def is_digit_def)
  have l: "length ''036000291452'' = 12"
    by simp
  have f: "findOne_barcode (store_partition ?db ''7'') ''123456789012345678901234''
     = Some (stored (generate_oid 0) long_item)"
    unfolding partition_long by (simp add: findOne_barcode_def long_item_def)
  have n: "findOne_id (store_partition ?db ''7'') oid = None"
    if "ObjectId_new lib ''123456789012345678901234'' = Inr oid" for oid lib
    using that unfolding partition_long
    by (auto simp: ObjectId_new_def findOne_id_def generate_oid_0 hex_value_def
        split: if_splits)
  have n12: "findOne_id (store_partition ?db12 ''7'') oid = None"
    if "ObjectId_new Bson_before_6 ''036000291452'' = Inr oid" for oid
    using that unfolding partition_upc
    by (auto simp: ObjectId_new_def findOne_id_def generate_oid_0)
  show ?thesis
    using getItem_barcode_of_identifier_length
        [of "''123456789012345678901234''" Bson_from_6 ?db "''7''"]
      getItem_barcode_of_identifier_length
        [of "''123456789012345678901234''" Bson_before_6 ?db "''7''"]
      getItem_barcode_of_identifier_length [of "''036000291452''" _ ?db12 "''7''"]
      d l f n n12
    by auto
qed

text \<open>
  The claim as stated fails: from release 6 on, bson does not take a string of 12
  characters for an identifier, and the item stored under the 12-digit barcode
  036000291452 is found by that barcode.
\<close>

theorem getItem_finds_12_digit_barcode_counterexample:
  "digits_only ''036000291452'' \<and> length ''036000291452'' = 12 \<and>
   getItemByBarcodeOrID Bson_from_6 (fst (addItem empty_db ''7'' upc_item)) ''7''
     ''036000291452'' =
     Inr \<lparr> success = True, message = Some ''Item retrieved successfully'',
           product = Some (stored (generate_oid 0) upc_item) \<rparr>"
proof -
  have "\<not> ObjectId_isValid Bson_from_6 ''036000291452''"
    by (simp add: ObjectId_isValid_def)
  moreover have "findOne_barcode (store_partition (fst (addItem empty_db ''7'' upc_item)) ''7'')
      ''036000291452'' = Some (stored (generate_oid 0) upc_item)"
    unfolding partition_upc by (simp add: findOne_barcode_def upc_item_def)
  ultimately show ?thesis
    by (simp add: getItem_by_barcode digits_only_def is_digit_def)
qed

end
